theory Spec2Isabelle
  imports Complex_Main
begin

section \<open>JavaScript values shared by both scripts\<close>

text \<open>
  Exceptions are values. A statement that can throw returns the exception (if any) together
  with the state reached when it was thrown, because assignments made before a throw stay.
\<close>

datatype audio_op =
    NewAudioContext | CreateOscillator | CreateGain | ConnectNode
  | SetValueAtTime | ExponentialRamp | StartOscillator | StopOscillator

datatype js_error =
    TypeError
  | AudioError audio_op
  | FetchError

datatype console_entry =
    Warn string int
  | Error string js_error

subsection \<open>Decimal rendering of integers and \<open>parseInt\<close>\<close>

text \<open>
  Numbers that are rendered into text or scraped back from it are integers here (the score
  interface speaks of integers). A JavaScript number is a double, so an integer is what it
  seems only up to \<open>Number.MAX_SAFE_INTEGER\<close>, which is \<open>2^53 - 1\<close>: beyond it the
  double is a rounded value, and from \<open>10^21\<close> on \<open>String\<close> prints an exponent.
  \<open>js_toString n\<close> is \<open>String(n)\<close> for a safe integer \<open>n\<close>; a property below that
  speaks of a rendered number bounds the number so.
\<close>

definition max_safe_integer :: int where
  "max_safe_integer = 2 ^ 53 - 1"

definition is_safe_integer :: "int \<Rightarrow> bool" where
  "is_safe_integer n = (- max_safe_integer \<le> n \<and> n \<le> max_safe_integer)"

definition digit_char :: "nat \<Rightarrow> char" where
  "digit_char d = char_of (48 + d)"

fun nat_digits :: "nat \<Rightarrow> string" where
  "nat_digits n = (if n < 10 then [digit_char n] else nat_digits (n div 10) @ [digit_char (n mod 10)])"

declare nat_digits.simps [simp del]

definition js_toString :: "int \<Rightarrow> string" where
  "js_toString n = (if n < 0 then CHR ''-'' # nat_digits (nat (- n)) else nat_digits (nat n))"

text \<open>
  \<open>parseInt(string)\<close> without a radix, as ECMAScript defines it: leading white space is
  skipped, then an optional sign, then an optional \<open>0x\<close>/\<open>0X\<close> prefix choosing radix 16,
  then the longest prefix of digits of the radix. No digit at all is \<open>NaN\<close> (\<open>None\<close>);
  whatever follows the digits is ignored. Characters are code units below 256; the white
  space characters among them are TAB, LF, VT, FF, CR, SP and NBSP.

  The result is a double. When the digits denote a safe integer it is that integer; when
  they denote more, it is a rounded double (ECMAScript lets an implementation approximate
  after the 20th digit) or \<open>Infinity\<close>, of which only this much is kept: it is not \<open>NaN\<close>
  and not \<open>0\<close>.
\<close>

datatype parsed_number = NaN | SafeInteger int | Rounded

definition isStrWhiteSpace :: "char \<Rightarrow> bool" where
  "isStrWhiteSpace c = (of_char c \<in> {9, 10, 11, 12, 13, 32, 160 :: nat})"

definition digit_value :: "char \<Rightarrow> nat option" where
  "digit_value c =
     (let k = (of_char c :: nat) in
      if 48 \<le> k \<and> k \<le> 57 then Some (k - 48)
      else if 97 \<le> k \<and> k \<le> 102 then Some (k - 87)
      else if 65 \<le> k \<and> k \<le> 70 then Some (k - 55)
      else None)"

definition is_radix_digit :: "nat \<Rightarrow> char \<Rightarrow> bool" where
  "is_radix_digit r c = (case digit_value c of None \<Rightarrow> False | Some d \<Rightarrow> d < r)"

definition digits_value :: "nat \<Rightarrow> string \<Rightarrow> nat" where
  "digits_value r ds = foldl (\<lambda>acc c. acc * r + (case digit_value c of None \<Rightarrow> 0 | Some d \<Rightarrow> d)) 0 ds"

definition strip_sign :: "string \<Rightarrow> bool \<times> string" where
  "strip_sign s =
     (case s of
        c # rest \<Rightarrow>
          if c = CHR ''-'' then (True, rest)
          else if c = CHR ''+'' then (False, rest)
          else (False, s)
      | [] \<Rightarrow> (False, s))"

definition strip_radix :: "string \<Rightarrow> nat \<times> string" where
  "strip_radix s =
     (case s of
        c # x # rest \<Rightarrow>
          if c = CHR ''0'' \<and> (x = CHR ''x'' \<or> x = CHR ''X'') then (16, rest) else (10, s)
      | _ \<Rightarrow> (10, s))"

definition parseInt :: "string \<Rightarrow> parsed_number" where
  "parseInt str =
     (let (neg, s1) = strip_sign (dropWhile isStrWhiteSpace str);
          (r, s2) = strip_radix s1;
          z = takeWhile (is_radix_digit r) s2;
          v = (if neg then - int (digits_value r z) else int (digits_value r z))
      in if z = [] then NaN
         else if is_safe_integer v then SafeInteger v
         else Rounded)"

text \<open>
  The texts in which no number can start: after the white space and the sign, the text is
  over or goes on with something that is not a decimal digit.
\<close>

definition no_leading_digit :: "string \<Rightarrow> bool" where
  "no_leading_digit text =
     (case snd (strip_sign (dropWhile isStrWhiteSpace text)) of
        [] \<Rightarrow> True
      | c # _ \<Rightarrow> \<not> is_radix_digit 10 c)"

section \<open>app.js: application logic\<close>

text \<open>
  The globals of the script: \<open>audioContext\<close> (\<open>null\<close> is \<open>False\<close>) and
  \<open>lastQualityScore\<close>. The effects a caller can observe are kept beside them: what was
  written to the console, in order, and the number of tones started.
\<close>

record app_state =
  audioContext :: bool
  lastQualityScore :: int
  console :: "console_entry list"
  tones :: nat

definition initial_app :: app_state where
  "initial_app = \<lparr>audioContext = False, lastQualityScore = 100, console = [], tones = 0\<rparr>"

text \<open>
  The audio host says which operations of the Web Audio interface throw on this machine
  (no \<open>AudioContext\<close> constructor, no output device, ...).
\<close>

type_synonym audio_host = "audio_op \<Rightarrow> bool"

fun first_failure :: "audio_host \<Rightarrow> audio_op list \<Rightarrow> audio_op option" where
  "first_failure host [] = None"
| "first_failure host (op # ops) = (if host op then Some op else first_failure host ops)"

text \<open>
  \<open>playAlertSound\<close>: the context is created when there is none, then the oscillator and the
  gain node are created, connected and scheduled, the oscillator is started and its stop is
  scheduled. The function has no \<open>try\<close>: the first operation that throws ends it, and the
  exception is what the caller gets.
\<close>

definition playAlertSound :: "audio_host \<Rightarrow> app_state \<Rightarrow> js_error option \<times> app_state" where
  "playAlertSound host s =
     (if \<not> audioContext s \<and> host NewAudioContext then (Some (AudioError NewAudioContext), s)
      else
        let s1 = s\<lparr>audioContext := True\<rparr> in
        case first_failure host
               [CreateOscillator, CreateGain, ConnectNode, ConnectNode,
                SetValueAtTime, ExponentialRamp, StartOscillator] of
          Some op \<Rightarrow> (Some (AudioError op), s1)
        | None \<Rightarrow>
            let s2 = s1\<lparr>tones := tones s1 + 1\<rparr> in
            if host StopOscillator then (Some (AudioError StopOscillator), s2) else (None, s2))"

text \<open>The operations one call of \<open>playAlertSound\<close> performs, in order.\<close>

definition audio_ops :: "app_state \<Rightarrow> audio_op list" where
  "audio_ops s =
     (if audioContext s then [] else [NewAudioContext])
     @ [CreateOscillator, CreateGain, ConnectNode, ConnectNode,
        SetValueAtTime, ExponentialRamp, StartOscillator, StopOscillator]"

text \<open>
  \<open>checkForAlerts\<close>: on a drop from at least 50 to below 50 the score is written with
  \<open>console.warn\<close>; the call of \<open>playAlertSound\<close> in that branch is commented out in the
  source, so it is not part of the function. The stored score is assigned last, on every
  path.
\<close>

definition quality_alert :: "int \<Rightarrow> console_entry" where
  "quality_alert score = Warn ''Connection quality dropped to:'' score"

definition checkForAlerts :: "app_state \<Rightarrow> int \<Rightarrow> app_state" where
  "checkForAlerts s score =
     (let s1 = (if lastQualityScore s \<ge> 50 \<and> score < 50
                then s\<lparr>console := console s @ [quality_alert score]\<rparr> else s)
      in s1\<lparr>lastQualityScore := score\<rparr>)"

text \<open>
  The \<open>htmx:afterSwap\<close> listener. \<open>qualityScore\<close> is the text content of the first
  \<open>.quality-score\<close> element (\<open>None\<close> when the page has none), \<open>target_id\<close> the id of the
  event's target. \<open>parseInt(text) || 100\<close>: \<open>NaN\<close> and \<open>0\<close> are both falsy. A rounded
  double is truthy and is itself the score; the stored score of \<open>app_state\<close> is an integer
  and cannot hold it, so for such a text the listener has no result here (\<open>None\<close>).
\<close>

definition scraped_score :: "string \<Rightarrow> int option" where
  "scraped_score text =
     (case parseInt text of
        NaN \<Rightarrow> Some 100
      | SafeInteger n \<Rightarrow> Some (if n = 0 then 100 else n)
      | Rounded \<Rightarrow> None)"

definition afterSwap :: "string option \<Rightarrow> string \<Rightarrow> app_state \<Rightarrow> app_state option" where
  "afterSwap qualityScore target_id s =
     (case qualityScore of
        Some text \<Rightarrow>
          if target_id = ''quality-display''
          then map_option (checkForAlerts s) (scraped_score text)
          else Some s
      | None \<Rightarrow> Some s)"

section \<open>charts.js: chart configuration and polling\<close>

subsection \<open>Statements that can throw\<close>

type_synonym 's stmt = "'s \<Rightarrow> js_error option \<times> 's"

definition seq :: "'s stmt \<Rightarrow> 's stmt \<Rightarrow> 's stmt" where
  "seq f g s = (case f s of (Some e, s') \<Rightarrow> (Some e, s') | (None, s') \<Rightarrow> g s')"

definition try_catch :: "'s stmt \<Rightarrow> (js_error \<Rightarrow> 's \<Rightarrow> 's) \<Rightarrow> 's \<Rightarrow> 's" where
  "try_catch body handler s = (case body s of (Some e, s') \<Rightarrow> handler e s' | (None, s') \<Rightarrow> s')"

subsection \<open>Payloads of the telemetry provider\<close>

text \<open>
  A value array holds numbers or \<open>null\<close>. A property of a payload that is absent
  (\<open>undefined\<close>) is \<open>None\<close>. Nothing makes the arrays of one payload equally long.
\<close>

type_synonym series = "real option list"

record history_payload =
  timestamps :: "string list option"
  ping :: "series option"
  jitter :: "series option"
  packet_loss :: "series option"

record longterm_payload = history_payload +
  quality :: "series option"
  signal :: "series option"

subsection \<open>Charts, the page and the globals\<close>

text \<open>
  Of a chart the labels, the \<open>data\<close> array of each dataset (in the order of the
  configuration) and the number of \<open>update('none')\<close> calls are kept.
\<close>

record chart =
  labels :: "string list"
  datasets :: "series option list"
  redraws :: nat

record element =
  textContent :: string
  className :: "string list"
  style_width :: string
  innerHTML :: string

record period_btn =
  classList :: "string list"
  dataset_period :: "string option"

record chart_state =
  latencyChart :: "chart option"
  lossChart :: "chart option"
  historyPingChart :: "chart option"
  historyQualityChart :: "chart option"
  historyLossChart :: "chart option"
  historySignalChart :: "chart option"
  currentPeriod :: string
  requests :: "string list"
  console_error :: "console_entry list"
  document :: "string \<rightharpoonup> element"
  buttons :: "period_btn list"

definition initial_charts :: "(string \<rightharpoonup> element) \<Rightarrow> period_btn list \<Rightarrow> chart_state" where
  "initial_charts doc btns =
     \<lparr>latencyChart = None, lossChart = None, historyPingChart = None,
      historyQualityChart = None, historyLossChart = None, historySignalChart = None,
      currentPeriod = ''day'', requests = [], console_error = [],
      document = doc, buttons = btns\<rparr>"

definition new_chart :: "nat \<Rightarrow> chart" where
  "new_chart n = \<lparr>labels = [], datasets = replicate n (Some []), redraws = 0\<rparr>"

text \<open>
  \<open>initCharts\<close> and \<open>initHistoryCharts\<close>: a chart is created for each canvas the page has;
  \<open>canvas\<close> tells which ids exist.
\<close>

definition initCharts :: "(string \<Rightarrow> bool) \<Rightarrow> chart_state \<Rightarrow> chart_state" where
  "initCharts canvas s =
     (let s1 = (if canvas ''latencyChart'' then s\<lparr>latencyChart := Some (new_chart 2)\<rparr> else s)
      in if canvas ''lossChart'' then s1\<lparr>lossChart := Some (new_chart 1)\<rparr> else s1)"

definition initHistoryCharts :: "(string \<Rightarrow> bool) \<Rightarrow> chart_state \<Rightarrow> chart_state" where
  "initHistoryCharts canvas s =
     (let s1 = (if canvas ''historyPingChart''
                then s\<lparr>historyPingChart := Some (new_chart 2)\<rparr> else s);
          s2 = (if canvas ''historyQualityChart''
                then s1\<lparr>historyQualityChart := Some (new_chart 1)\<rparr> else s1);
          s3 = (if canvas ''historyLossChart''
                then s2\<lparr>historyLossChart := Some (new_chart 1)\<rparr> else s2)
      in if canvas ''historySignalChart''
         then s3\<lparr>historySignalChart := Some (new_chart 1)\<rparr> else s3)"

subsection \<open>The colour of a packet-loss bar\<close>

text \<open>
  The \<open>backgroundColor\<close> callbacks of the two loss charts; \<open>raw\<close> is the bar's value,
  \<open>None\<close> when it is \<open>null\<close> or \<open>undefined\<close>. \<open>context.raw || 0\<close> is the value itself for
  every number (for \<open>0\<close> it is \<open>0\<close> again).
\<close>

definition raw_or_zero :: "real option \<Rightarrow> real" where
  "raw_or_zero raw = (case raw of None \<Rightarrow> 0 | Some v \<Rightarrow> if v = 0 then 0 else v)"

definition lossChart_backgroundColor :: "real option \<Rightarrow> string" where
  "lossChart_backgroundColor raw =
     (let v = raw_or_zero raw in
      if v > 5 then ''rgba(239, 68, 68, 0.8)''
      else if v > 1 then ''rgba(245, 158, 11, 0.8)''
      else if v > 0 then ''rgba(245, 158, 11, 0.5)''
      else ''rgba(16, 185, 129, 0.3)'')"

definition historyLossChart_backgroundColor :: "real option \<Rightarrow> string" where
  "historyLossChart_backgroundColor raw =
     (let v = raw_or_zero raw in
      if v > 5 then ''rgba(239, 68, 68, 0.8)''
      else if v > 1 then ''rgba(245, 158, 11, 0.8)''
      else if v > 0 then ''rgba(245, 158, 11, 0.5)''
      else ''rgba(16, 185, 129, 0.3)'')"

subsection \<open>Assignments to a chart\<close>

definition set_labels :: "string list \<Rightarrow> chart stmt" where
  "set_labels ts ch = (None, ch\<lparr>labels := ts\<rparr>)"

text \<open>\<open>chart.data.datasets[i].data = v\<close> throws when the chart has no dataset \<open>i\<close>.\<close>

definition set_dataset :: "nat \<Rightarrow> series option \<Rightarrow> chart stmt" where
  "set_dataset i v ch =
     (if i < length (datasets ch) then (None, ch\<lparr>datasets := (datasets ch)[i := v]\<rparr>)
      else (Some TypeError, ch))"

definition chart_update :: "chart stmt" where
  "chart_update ch = (None, ch\<lparr>redraws := redraws ch + 1\<rparr>)"

text \<open>
  \<open>if (chart && data.timestamps.length > 0) { ... }\<close>: a chart that was never created
  short-circuits the condition, so the payload is not even read; otherwise
  \<open>data.timestamps.length\<close> throws when the payload has no \<open>timestamps\<close>. No other array
  of the payload is looked at before the body runs.
\<close>

definition when_window :: "chart option \<Rightarrow> string list option \<Rightarrow> (string list \<Rightarrow> chart stmt)
    \<Rightarrow> js_error option \<times> chart option" where
  "when_window handle ts body =
     (case handle of
        None \<Rightarrow> (None, None)
      | Some ch \<Rightarrow>
          (case ts of
             None \<Rightarrow> (Some TypeError, Some ch)
           | Some l \<Rightarrow>
               if length l > 0 then (case body l ch of (e, ch') \<Rightarrow> (e, Some ch'))
               else (None, Some ch)))"

subsection \<open>The short-term poll\<close>

text \<open>
  An \<open>async\<close> function runs up to its first \<open>await\<close> when it is called: the request is
  issued then. What follows the \<open>await\<close> runs when the response arrives; the response is an
  exception (the fetch was rejected, or the body is not JSON) or a payload.
\<close>

definition updateCharts_fetch :: "chart_state \<Rightarrow> chart_state" where
  "updateCharts_fetch s = s\<lparr>requests := requests s @ [''/api/history?seconds=60'']\<rparr>"

definition updateCharts_latency :: "history_payload \<Rightarrow> chart_state stmt" where
  "updateCharts_latency data s =
     (case when_window (latencyChart s) (timestamps data)
             (\<lambda>ts. seq (set_labels ts)
                     (seq (set_dataset 0 (ping data))
                       (seq (set_dataset 1 (jitter data)) chart_update))) of
        (e, h) \<Rightarrow> (e, s\<lparr>latencyChart := h\<rparr>))"

definition updateCharts_loss :: "history_payload \<Rightarrow> chart_state stmt" where
  "updateCharts_loss data s =
     (case when_window (lossChart s) (timestamps data)
             (\<lambda>ts. seq (set_labels ts)
                     (seq (set_dataset 0 (packet_loss data)) chart_update)) of
        (e, h) \<Rightarrow> (e, s\<lparr>lossChart := h\<rparr>))"

definition log_error :: "string \<Rightarrow> js_error \<Rightarrow> chart_state \<Rightarrow> chart_state" where
  "log_error msg e s = s\<lparr>console_error := console_error s @ [Error msg e]\<rparr>"

definition updateCharts_response :: "js_error + history_payload \<Rightarrow> chart_state \<Rightarrow> chart_state" where
  "updateCharts_response response =
     try_catch
       (\<lambda>s. case response of
               Inl e \<Rightarrow> (Some e, s)
             | Inr data \<Rightarrow> seq (updateCharts_latency data) (updateCharts_loss data) s)
       (log_error ''Error updating charts:'')"

definition updateCharts :: "js_error + history_payload \<Rightarrow> chart_state \<Rightarrow> chart_state" where
  "updateCharts response s = updateCharts_response response (updateCharts_fetch s)"

subsection \<open>The long-term poll\<close>

text \<open>\<open>if (period) currentPeriod = period\<close>: \<open>null\<close> and the empty string are falsy.\<close>

definition set_period :: "string option \<Rightarrow> chart_state \<Rightarrow> chart_state" where
  "set_period period s =
     (case period of
        None \<Rightarrow> s
      | Some p \<Rightarrow> if p \<noteq> [] then s\<lparr>currentPeriod := p\<rparr> else s)"

definition updateHistoryCharts_fetch :: "string option \<Rightarrow> chart_state \<Rightarrow> chart_state" where
  "updateHistoryCharts_fetch period s =
     (let s1 = set_period period s
      in s1\<lparr>requests := requests s1 @ [''/api/long-term-history?period='' @ currentPeriod s1]\<rparr>)"

definition updateHistoryCharts_ping :: "longterm_payload \<Rightarrow> chart_state stmt" where
  "updateHistoryCharts_ping data s =
     (case when_window (historyPingChart s) (timestamps data)
             (\<lambda>ts. seq (set_labels ts)
                     (seq (set_dataset 0 (ping data))
                       (seq (set_dataset 1 (jitter data)) chart_update))) of
        (e, h) \<Rightarrow> (e, s\<lparr>historyPingChart := h\<rparr>))"

definition updateHistoryCharts_quality :: "longterm_payload \<Rightarrow> chart_state stmt" where
  "updateHistoryCharts_quality data s =
     (case when_window (historyQualityChart s) (timestamps data)
             (\<lambda>ts. seq (set_labels ts)
                     (seq (set_dataset 0 (quality data)) chart_update)) of
        (e, h) \<Rightarrow> (e, s\<lparr>historyQualityChart := h\<rparr>))"

definition updateHistoryCharts_loss :: "longterm_payload \<Rightarrow> chart_state stmt" where
  "updateHistoryCharts_loss data s =
     (case when_window (historyLossChart s) (timestamps data)
             (\<lambda>ts. seq (set_labels ts)
                     (seq (set_dataset 0 (packet_loss data)) chart_update)) of
        (e, h) \<Rightarrow> (e, s\<lparr>historyLossChart := h\<rparr>))"

definition updateHistoryCharts_signal :: "longterm_payload \<Rightarrow> chart_state stmt" where
  "updateHistoryCharts_signal data s =
     (case when_window (historySignalChart s) (timestamps data)
             (\<lambda>ts. seq (set_labels ts)
                     (seq (set_dataset 0 (signal data)) chart_update)) of
        (e, h) \<Rightarrow> (e, s\<lparr>historySignalChart := h\<rparr>))"

definition updateHistoryCharts_response ::
    "js_error + longterm_payload \<Rightarrow> chart_state \<Rightarrow> chart_state" where
  "updateHistoryCharts_response response =
     try_catch
       (\<lambda>s. case response of
               Inl e \<Rightarrow> (Some e, s)
             | Inr data \<Rightarrow>
                 seq (updateHistoryCharts_ping data)
                   (seq (updateHistoryCharts_quality data)
                     (seq (updateHistoryCharts_loss data)
                       (updateHistoryCharts_signal data))) s)
       (log_error ''Error updating history charts:'')"

definition updateHistoryCharts ::
    "string option \<Rightarrow> js_error + longterm_payload \<Rightarrow> chart_state \<Rightarrow> chart_state" where
  "updateHistoryCharts period response s =
     updateHistoryCharts_response response (updateHistoryCharts_fetch period s)"

subsection \<open>The score panel\<close>

definition startsWith :: "string \<Rightarrow> string \<Rightarrow> bool" where
  "startsWith s p = (take (length p) s = p)"

text \<open>
  Writing a property of \<open>document.getElementById(id)\<close> throws when the page has no such
  element.
\<close>

definition set_textContent :: "string \<Rightarrow> string \<Rightarrow> chart_state stmt" where
  "set_textContent ident v s =
     (case document s ident of
        None \<Rightarrow> (Some TypeError, s)
      | Some el \<Rightarrow> (None, s\<lparr>document := (document s)(ident \<mapsto> el\<lparr>textContent := v\<rparr>)\<rparr>))"

definition set_className :: "string \<Rightarrow> string list \<Rightarrow> chart_state stmt" where
  "set_className ident cs s =
     (case document s ident of
        None \<Rightarrow> (Some TypeError, s)
      | Some el \<Rightarrow> (None, s\<lparr>document := (document s)(ident \<mapsto> el\<lparr>className := cs\<rparr>)\<rparr>))"

definition set_innerHTML :: "string \<Rightarrow> string \<Rightarrow> chart_state stmt" where
  "set_innerHTML ident v s =
     (case document s ident of
        None \<Rightarrow> (Some TypeError, s)
      | Some el \<Rightarrow> (None, s\<lparr>document := (document s)(ident \<mapsto> el\<lparr>innerHTML := v\<rparr>)\<rparr>))"

definition tokens_add :: "string \<Rightarrow> string list \<Rightarrow> string list" where
  "tokens_add c cs = (if c \<in> set cs then cs else cs @ [c])"

definition tokens_remove :: "string \<Rightarrow> string list \<Rightarrow> string list" where
  "tokens_remove c cs = filter (\<lambda>x. x \<noteq> c) cs"

definition classList_add :: "string \<Rightarrow> string \<Rightarrow> chart_state stmt" where
  "classList_add ident c s =
     (case document s ident of
        None \<Rightarrow> (Some TypeError, s)
      | Some el \<Rightarrow>
          (None, s\<lparr>document := (document s)(ident \<mapsto> el\<lparr>className := tokens_add c (className el)\<rparr>)\<rparr>))"

text \<open>
  The class of the grade: the chain of \<open>if\<close>s of \<open>updateLongtermScore\<close>. The first three
  tests are \<open>startsWith\<close>, the fourth is \<open>=== 'D'\<close>.
\<close>

definition grade_class :: "string \<Rightarrow> string" where
  "grade_class g =
     (if startsWith g ''A'' then ''grade-a''
      else if startsWith g ''B'' then ''grade-b''
      else if startsWith g ''C'' then ''grade-c''
      else if g = ''D'' then ''grade-d''
      else ''grade-e'')"

text \<open>
  \<open>bar.style.width = `${score}%`\<close>: a style declaration takes a value only when the value
  is valid for the property. A width may be any percentage from 0 on, so a negative score
  leaves the width as it was; no score is too large.
\<close>

definition assign_width :: "int \<Rightarrow> element \<Rightarrow> element" where
  "assign_width score bar =
     (if 0 \<le> score then bar\<lparr>style_width := js_toString score @ ''%''\<rparr> else bar)"

text \<open>
  \<open>updateDetailBar\<close>: nothing happens unless both elements exist. The width is the template
  literal \<open>`${score}%`\<close>, the label is the score; the function bounds neither.
\<close>

definition bar_class :: "int \<Rightarrow> string" where
  "bar_class score =
     (if score \<ge> 80 then ''score-high'' else if score \<ge> 50 then ''score-mid'' else ''score-low'')"

definition updateDetailBar :: "string \<Rightarrow> int \<Rightarrow> chart_state \<Rightarrow> chart_state" where
  "updateDetailBar prefix score s =
     (case (document s (prefix @ ''-bar''), document s (prefix @ ''-score'')) of
        (Some bar, Some val) \<Rightarrow>
          (let d1 = (document s)(prefix @ ''-bar'' \<mapsto> assign_width score bar);
               d2 = d1(prefix @ ''-score'' \<mapsto> val\<lparr>textContent := js_toString score\<rparr>);
               d3 = (case d2 (prefix @ ''-bar'') of
                       None \<Rightarrow> d2
                     | Some b \<Rightarrow>
                         d2(prefix @ ''-bar'' \<mapsto>
                              b\<lparr>className := tokens_add (bar_class score) [''detail-fill'']\<rparr>))
           in s\<lparr>document := d3\<rparr>)
      | _ \<Rightarrow> s)"

text \<open>
  The score payload: \<open>details\<close> is an object of objects, so a map from the metric's name to
  a map from the property's name to its number.
\<close>

record score_payload =
  grade :: "string option"
  score :: "int option"
  message :: "string option"
  record_count :: "int option"
  hours_analyzed :: "int option"
  details :: "(string \<rightharpoonup> (string \<rightharpoonup> int)) option"

text \<open>
  \<open>data.details.<name>?.score || 0\<close> and the like: an absent metric, an absent property and
  the number \<open>0\<close> all give \<open>0\<close>.
\<close>

definition detail_or_zero :: "(string \<rightharpoonup> (string \<rightharpoonup> int)) \<Rightarrow> string \<Rightarrow> string \<Rightarrow> int" where
  "detail_or_zero d name prop =
     (case d name of
        None \<Rightarrow> 0
      | Some m \<Rightarrow> (case m prop of None \<Rightarrow> 0 | Some n \<Rightarrow> if n = 0 then 0 else n))"

text \<open>
  An absent property is \<open>undefined\<close>. Assigned to \<open>textContent\<close> it clears the text;
  interpolated into a template literal it is the word \<open>undefined\<close>.
\<close>

definition text_of :: "string option \<Rightarrow> string" where
  "text_of v = (case v of None \<Rightarrow> [] | Some t \<Rightarrow> t)"

definition number_content :: "int option \<Rightarrow> string" where
  "number_content v = (case v of None \<Rightarrow> [] | Some n \<Rightarrow> js_toString n)"

definition number_text :: "int option \<Rightarrow> string" where
  "number_text v = (case v of None \<Rightarrow> ''undefined'' | Some n \<Rightarrow> js_toString n)"

definition stats_markup :: "score_payload \<Rightarrow> (string \<rightharpoonup> (string \<rightharpoonup> int)) \<Rightarrow> string" where
  "stats_markup data d =
     (let nl = CHR 0x0A # replicate 16 (CHR '' '') in
      nl @ ''<div><strong>'' @ number_text (record_count data) @ ''</strong> Messungen</div>''
      @ nl @ ''<div><strong>'' @ number_text (hours_analyzed data) @ ''h</strong> analysiert</div>''
      @ nl @ ''<div>Ping: <strong>'' @ js_toString (detail_or_zero d ''ping'' ''avg_ms'')
           @ ''ms</strong> avg</div>''
      @ nl @ ''<div>Loss Events: <strong>''
           @ js_toString (detail_or_zero d ''packet_loss'' ''events'') @ ''</strong></div>''
      @ CHR 0x0A # replicate 12 (CHR '' ''))"

definition updateLongtermScore_fetch :: "string option \<Rightarrow> chart_state \<Rightarrow> chart_state" where
  "updateLongtermScore_fetch period s =
     (let s1 = set_period period s
      in s1\<lparr>requests := requests s1 @ [''/api/longterm-score?period='' @ currentPeriod s1]\<rparr>)"

definition update_grade :: "score_payload \<Rightarrow> chart_state stmt" where
  "update_grade data =
     seq (set_textContent ''lt-grade'' (text_of (grade data)))
       (seq (set_className ''lt-grade'' [''score-grade''])
         (\<lambda>s. case grade data of
                 None \<Rightarrow> (Some TypeError, s)
               | Some g \<Rightarrow> classList_add ''lt-grade'' (grade_class g) s))"

definition update_detail_bars :: "score_payload \<Rightarrow> chart_state stmt" where
  "update_detail_bars data s =
     (case details data of
        None \<Rightarrow> (None, s)
      | Some d \<Rightarrow>
          (None,
           updateDetailBar ''lt-jitter'' (detail_or_zero d ''jitter'' ''score'')
             (updateDetailBar ''lt-conn'' (detail_or_zero d ''connection'' ''score'')
               (updateDetailBar ''lt-ping'' (detail_or_zero d ''ping'' ''score'')
                 (updateDetailBar ''lt-loss'' (detail_or_zero d ''packet_loss'' ''score'') s)))))"

definition update_stats :: "score_payload \<Rightarrow> chart_state stmt" where
  "update_stats data s =
     (case details data of
        None \<Rightarrow> (None, s)
      | Some d \<Rightarrow> set_innerHTML ''lt-stats'' (stats_markup data d) s)"

definition updateLongtermScore_response ::
    "js_error + score_payload \<Rightarrow> chart_state \<Rightarrow> chart_state" where
  "updateLongtermScore_response response =
     try_catch
       (\<lambda>s. case response of
               Inl e \<Rightarrow> (Some e, s)
             | Inr data \<Rightarrow>
                 seq (update_grade data)
                   (seq (set_textContent ''lt-score'' (number_content (score data)))
                     (seq (set_textContent ''lt-message'' (text_of (message data)))
                       (seq (update_detail_bars data) (update_stats data)))) s)
       (log_error ''Error updating longterm score:'')"

definition updateLongtermScore ::
    "string option \<Rightarrow> js_error + score_payload \<Rightarrow> chart_state \<Rightarrow> chart_state" where
  "updateLongtermScore period response s =
     updateLongtermScore_response response (updateLongtermScore_fetch period s)"

subsection \<open>The period selector\<close>

text \<open>
  The click listener \<open>initPeriodSelector\<close> puts on the button at position \<open>i\<close> of
  \<open>querySelectorAll('.period-btn')\<close>: every button loses \<open>active\<close>, the clicked one gets
  it, and both long-term functions are called with its \<open>data-period\<close>. The listener does
  not wait for them: only their requests are issued before it returns.
\<close>

definition period_click :: "nat \<Rightarrow> chart_state \<Rightarrow> chart_state" where
  "period_click i s =
     (if i < length (buttons s) then
        let bs = map (\<lambda>b. b\<lparr>classList := tokens_remove ''active'' (classList b)\<rparr>) (buttons s);
            this = bs ! i;
            bs' = bs[i := this\<lparr>classList := tokens_add ''active'' (classList this)\<rparr>];
            period = dataset_period (bs' ! i);
            s1 = updateHistoryCharts_fetch period (s\<lparr>buttons := bs'\<rparr>)
        in updateLongtermScore_fetch period s1
      else s)"

definition is_active :: "period_btn \<Rightarrow> bool" where
  "is_active b = (''active'' \<in> set (classList b))"

section \<open>Notions the properties are stated with\<close>

text \<open>
  \<open>DOMContentLoaded\<close>: the charts are created from their initial, undefined handles.
\<close>

definition domContentLoaded ::
    "(string \<Rightarrow> bool) \<Rightarrow> (string \<rightharpoonup> element) \<Rightarrow> period_btn list \<Rightarrow> chart_state" where
  "domContentLoaded canvas doc btns =
     initHistoryCharts canvas (initCharts canvas (initial_charts doc btns))"

text \<open>
  Every chart that exists has as many datasets as its configuration in \<open>initCharts\<close> or
  \<open>initHistoryCharts\<close> gives it.
\<close>

definition shaped :: "nat \<Rightarrow> chart option \<Rightarrow> bool" where
  "shaped n handle = (case handle of None \<Rightarrow> True | Some ch \<Rightarrow> length (datasets ch) = n)"

definition charts_created :: "chart_state \<Rightarrow> bool" where
  "charts_created s =
     (shaped 2 (latencyChart s) \<and> shaped 1 (lossChart s) \<and> shaped 2 (historyPingChart s)
      \<and> shaped 1 (historyQualityChart s) \<and> shaped 1 (historyLossChart s)
      \<and> shaped 1 (historySignalChart s))"

text \<open>
  The six chart handles; a chart after a window was assigned to it and redrawn; an
  assignment that leaves the number of datasets alone.
\<close>

definition charts_of :: "chart_state \<Rightarrow> chart option list" where
  "charts_of s =
     [latencyChart s, lossChart s, historyPingChart s, historyQualityChart s,
      historyLossChart s, historySignalChart s]"

definition shown :: "string list \<Rightarrow> series option list \<Rightarrow> chart option \<Rightarrow> chart option" where
  "shown ts vs handle =
     map_option (\<lambda>ch. \<lparr>labels = ts, datasets = vs, redraws = redraws ch + 1\<rparr>) handle"

definition keeps_datasets :: "chart stmt \<Rightarrow> bool" where
  "keeps_datasets f = (\<forall>ch. length (datasets (snd (f ch))) = length (datasets ch))"

text \<open>The four colours the callbacks return, by the severity they stand for.\<close>

definition colour_high :: string where
  "colour_high = ''rgba(239, 68, 68, 0.8)''"

definition colour_medium :: string where
  "colour_medium = ''rgba(245, 158, 11, 0.8)''"

definition colour_low :: string where
  "colour_low = ''rgba(245, 158, 11, 0.5)''"

definition colour_nominal :: string where
  "colour_nominal = ''rgba(16, 185, 129, 0.3)''"

text \<open>
  The four sub-scores \<open>updateLongtermScore\<close> renders, with the prefix of the ids of their
  bar; \<open>sub_score\<close> is \<open>data.details.<name>?.score\<close>.
\<close>

definition detail_bars :: "(string \<times> string) list" where
  "detail_bars =
     [(''packet_loss'', ''lt-loss''), (''ping'', ''lt-ping''),
      (''connection'', ''lt-conn''), (''jitter'', ''lt-jitter'')]"

definition sub_score :: "(string \<rightharpoonup> (string \<rightharpoonup> int)) \<Rightarrow> string \<Rightarrow> int option" where
  "sub_score d name = (case d name of None \<Rightarrow> None | Some m \<Rightarrow> m ''score'')"

subsection \<open>A page and some payloads\<close>

text \<open>
  A page that has every element the score panel looks up and three period buttons, the
  first of them active; a well-formed short window; windows whose arrays differ in length.
\<close>

definition blank :: element where
  "blank = \<lparr>textContent = [], className = [], style_width = [], innerHTML = []\<rparr>"

definition score_panel :: "string \<rightharpoonup> element" where
  "score_panel =
     map_of (map (\<lambda>i. (i, blank))
       [''lt-grade'', ''lt-score'', ''lt-message'', ''lt-stats'',
        ''lt-loss-bar'', ''lt-loss-score'', ''lt-ping-bar'', ''lt-ping-score'',
        ''lt-conn-bar'', ''lt-conn-score'', ''lt-jitter-bar'', ''lt-jitter-score''])"

definition period_buttons :: "period_btn list" where
  "period_buttons =
     [\<lparr>classList = [''period-btn'', ''active''], dataset_period = Some ''day''\<rparr>,
      \<lparr>classList = [''period-btn''], dataset_period = Some ''week''\<rparr>,
      \<lparr>classList = [''period-btn''], dataset_period = Some ''month''\<rparr>]"

definition panel_page :: chart_state where
  "panel_page = domContentLoaded (\<lambda>c. False) score_panel period_buttons"

definition grade_only :: "string \<Rightarrow> score_payload" where
  "grade_only g =
     \<lparr>grade = Some g, score = Some 72, message = Some ''ok'', record_count = Some 1440,
      hours_analyzed = Some 24,
      details = Some [''packet_loss'' \<mapsto> [''score'' \<mapsto> 90, ''events'' \<mapsto> 2]]\<rparr>"

definition steady_history :: history_payload where
  "steady_history =
     \<lparr>timestamps = Some [''12:00:00''], ping = Some [Some 18],
      jitter = Some [Some 2], packet_loss = Some [Some 0]\<rparr>"

definition ragged_history :: history_payload where
  "ragged_history =
     \<lparr>timestamps = Some [''12:00:01'', ''12:00:02''], ping = Some [Some 20],
      jitter = Some [], packet_loss = Some [Some 0, Some 0, Some 0]\<rparr>"

definition ragged_longterm :: longterm_payload where
  "ragged_longterm =
     \<lparr>timestamps = Some [''Mon'', ''Tue''], ping = Some [Some 20],
      jitter = Some [], packet_loss = Some [Some 0, Some 0, Some 0],
      quality = Some [Some 90], signal = Some []\<rparr>"

section \<open>Properties of app.js\<close>

subsection \<open>The quality watcher\<close>

lemma lastQualityScore_checkForAlerts:
  "lastQualityScore (checkForAlerts s x) = x"
  by (simp add: checkForAlerts_def Let_def)

lemma console_checkForAlerts:
  "console (checkForAlerts s x) =
     console s @ (if lastQualityScore s \<ge> 50 \<and> x < 50 then [quality_alert x] else [])"
  by (simp add: checkForAlerts_def Let_def)

lemma lastQualityScore_foldl:
  "lastQualityScore (foldl checkForAlerts s xs) = (if xs = [] then lastQualityScore s else last xs)"
  by (induction xs arbitrary: s) (auto simp: lastQualityScore_checkForAlerts)

lemma lastQualityScore_take:
  assumes "i < length xs"
  shows "lastQualityScore (foldl checkForAlerts initial_app (take i xs)) =
           (if i = 0 then 100 else xs ! (i - 1))"
proof (cases i)
  case 0
  then show ?thesis by (simp add: initial_app_def)
next
  case (Suc k)
  with assms have ne: "take i xs \<noteq> []" by auto
  have "last (take (Suc k) xs) = xs ! k"
    using assms Suc by (simp add: take_Suc_conv_app_nth)
  with ne Suc show ?thesis by (simp add: lastQualityScore_foldl)
qed

text \<open>
  Claim C1. Let the scores \<open>xs\<close> be observed one after the other, starting from the initial
  state (stored score 100). At the \<open>i\<close>-th call the stored score is the score observed just
  before (100 at the first call); the call writes its warning, the alert, exactly when that
  stored score is at least 50 and the new score is below 50, and writes nothing otherwise;
  after the call the stored score is the new score, alert or not. For the scores
  100, 70, 40, 30, 60, 45 the alerts are the two for 40 and 45.
\<close>

theorem checkForAlerts_downward_crossing:
  "(\<forall>i < length xs.
      (let before = foldl checkForAlerts initial_app (take i xs);
           after = checkForAlerts before (xs ! i);
           previous = (if i = 0 then 100 else xs ! (i - 1))
       in lastQualityScore before = previous
          \<and> console after =
              console before @ (if previous \<ge> 50 \<and> xs ! i < 50 then [quality_alert (xs ! i)] else [])
          \<and> lastQualityScore after = xs ! i))
   \<and> console (foldl checkForAlerts initial_app [100, 70, 40, 30, 60, 45]) =
       [quality_alert 40, quality_alert 45]"
proof (intro conjI allI impI)
  fix i assume "i < length xs"
  then show "let before = foldl checkForAlerts initial_app (take i xs);
           after = checkForAlerts before (xs ! i);
           previous = (if i = 0 then 100 else xs ! (i - 1))
       in lastQualityScore before = previous
          \<and> console after =
              console before @ (if previous \<ge> 50 \<and> xs ! i < 50 then [quality_alert (xs ! i)] else [])
          \<and> lastQualityScore after = xs ! i"
    unfolding Let_def
    by (simp only: lastQualityScore_take console_checkForAlerts
          lastQualityScore_checkForAlerts)
next
  show "console (foldl checkForAlerts initial_app [100, 70, 40, 30, 60, 45]) =
       [quality_alert 40, quality_alert 45]"
    by (simp add: checkForAlerts_def initial_app_def)
qed

theorem checkForAlerts_downward_crossing_witness:
  "lastQualityScore (foldl checkForAlerts initial_app [100, 70]) = 70
   \<and> console (checkForAlerts (foldl checkForAlerts initial_app [100, 70]) 40) =
       console (foldl checkForAlerts initial_app [100, 70]) @ [quality_alert 40]
   \<and> lastQualityScore (checkForAlerts (foldl checkForAlerts initial_app [100, 70]) 40) = 40"
proof -
  have len: "Suc (Suc 0) < length [100, 70, 40, 30, 60, 45 :: int]" by simp
  have tk: "take (Suc (Suc 0)) [100, 70, 40, 30, 60, 45 :: int] = [100, 70]" by simp
  have nth2: "[100, 70, 40, 30, 60, 45 :: int] ! Suc (Suc 0) = 40" by simp
  have nth1: "[100, 70, 40, 30, 60, 45 :: int] ! (Suc (Suc 0) - 1) = 70" by simp
  from checkForAlerts_downward_crossing [of "[100, 70, 40, 30, 60, 45]", THEN conjunct1, rule_format, OF len]
  show ?thesis
    unfolding Let_def tk nth2 nth1 by simp
qed

text \<open>
  Claim C10, as stated, at a concrete input: the first observation 40 is a downward crossing
  (the stored score is 100) and its warning is written, yet no tone was started and no audio
  context exists afterwards, which a call of \<open>playAlertSound\<close> on a working audio host
  would have changed.
\<close>

theorem checkForAlerts_crossing_counterexample:
  "lastQualityScore initial_app \<ge> 50 \<and> (40::int) < 50
   \<and> console (checkForAlerts initial_app 40) = [quality_alert 40]
   \<and> tones (checkForAlerts initial_app 40) = 0
   \<and> audioContext (checkForAlerts initial_app 40) = False
   \<and> tones (snd (playAlertSound (\<lambda>op. False) initial_app)) = 1
   \<and> audioContext (snd (playAlertSound (\<lambda>op. False) initial_app)) = True"
  by (simp add: checkForAlerts_def playAlertSound_def initial_app_def Let_def)

lemma tones_checkForAlerts: "tones (checkForAlerts s x) = tones s"
  by (simp add: checkForAlerts_def Let_def)

lemma audioContext_checkForAlerts: "audioContext (checkForAlerts s x) = audioContext s"
  by (simp add: checkForAlerts_def Let_def)

lemma audio_foldl_checkForAlerts:
  "tones (foldl checkForAlerts s xs) = tones s
   \<and> audioContext (foldl checkForAlerts s xs) = audioContext s"
  by (induction xs arbitrary: s) (simp_all add: tones_checkForAlerts audioContext_checkForAlerts)

text \<open>
  Claim C10, amended. \<open>checkForAlerts\<close> never invokes \<open>playAlertSound\<close>: whatever scores
  are observed, the number of tones started and the audio context stay as they were. A
  downward crossing of 50 is reported by the console warning alone.
\<close>

theorem checkForAlerts_warns_without_tone:
  "tones (foldl checkForAlerts s xs) = tones s
   \<and> audioContext (foldl checkForAlerts s xs) = audioContext s
   \<and> (lastQualityScore s \<ge> 50 \<and> x < 50 \<longrightarrow>
        console (checkForAlerts s x) = console s @ [quality_alert x]
        \<and> tones (checkForAlerts s x) = tones s
        \<and> audioContext (checkForAlerts s x) = audioContext s)"
  using audio_foldl_checkForAlerts [of s xs]
  by (simp add: console_checkForAlerts tones_checkForAlerts audioContext_checkForAlerts)

theorem checkForAlerts_warns_without_tone_witness:
  "tones (foldl checkForAlerts initial_app [70, 40, 30]) = 0
   \<and> console (checkForAlerts initial_app 40) = [quality_alert 40]
   \<and> tones (checkForAlerts initial_app 40) = 0"
proof -
  have h: "lastQualityScore initial_app \<ge> 50 \<and> (40::int) < 50"
    by (simp add: initial_app_def)
  from checkForAlerts_warns_without_tone [of initial_app "[70, 40, 30]" 40] h
  show ?thesis by (simp add: initial_app_def)
qed

subsection \<open>The alert tone\<close>

text \<open>
  Claim C9, as stated, at a concrete input: on a host whose \<open>AudioContext\<close> constructor
  throws, \<open>playAlertSound\<close> hands that exception to its caller and writes nothing to the
  console.
\<close>

theorem playAlertSound_counterexample:
  "fst (playAlertSound (\<lambda>op. op = NewAudioContext) initial_app) = Some (AudioError NewAudioContext)
   \<and> console (snd (playAlertSound (\<lambda>op. op = NewAudioContext) initial_app)) = []"
  by (simp add: playAlertSound_def initial_app_def)

text \<open>
  Claim C9, amended. \<open>playAlertSound\<close> catches nothing and logs nothing: what its caller
  gets is the exception of the first operation that throws on the host, and a normal return
  exactly when none of its operations throws; the console and the stored score are as
  before.
\<close>

theorem playAlertSound_propagates:
  "fst (playAlertSound host s) = map_option AudioError (first_failure host (audio_ops s))
   \<and> console (snd (playAlertSound host s)) = console s
   \<and> lastQualityScore (snd (playAlertSound host s)) = lastQualityScore s"
  by (simp add: playAlertSound_def audio_ops_def Let_def split: option.splits)

theorem playAlertSound_propagates_witness:
  "fst (playAlertSound (\<lambda>op. op = CreateGain) initial_app) = Some (AudioError CreateGain)
   \<and> fst (playAlertSound (\<lambda>op. False) initial_app) = None"
  using playAlertSound_propagates [of "\<lambda>op. op = CreateGain" initial_app]
    playAlertSound_propagates [of "\<lambda>op. False" initial_app]
  by (simp add: audio_ops_def initial_app_def)

subsection \<open>The score scraped from the page\<close>

lemma of_char_digit_char: "d < 10 \<Longrightarrow> (of_char (digit_char d) :: nat) = 48 + d"
  by (simp add: digit_char_def)

lemma digit_value_digit_char: "d < 10 \<Longrightarrow> digit_value (digit_char d) = Some d"
  by (simp add: digit_value_def of_char_digit_char)

lemma is_radix_digit_digit_char: "d < 10 \<Longrightarrow> is_radix_digit 10 (digit_char d)"
  by (simp add: is_radix_digit_def digit_value_digit_char)

lemma nat_digits_nonempty: "nat_digits n \<noteq> []"
  by (subst nat_digits.simps) simp

lemma nat_digits_all_digits: "list_all (is_radix_digit 10) (nat_digits n)"
proof (induction n rule: nat_digits.induct)
  case (1 n)
  show ?case
  proof (cases "n < 10")
    case True
    then show ?thesis by (subst nat_digits.simps) (simp add: is_radix_digit_digit_char)
  next
    case False
    with 1 show ?thesis by (subst nat_digits.simps) (simp add: is_radix_digit_digit_char)
  qed
qed

lemma digits_value_snoc:
  "digits_value r (ds @ [c]) =
     digits_value r ds * r + (case digit_value c of None \<Rightarrow> 0 | Some d \<Rightarrow> d)"
  by (simp add: digits_value_def)

lemma digits_value_nat_digits: "digits_value 10 (nat_digits n) = n"
proof (induction n rule: nat_digits.induct)
  case (1 n)
  show ?case
  proof (cases "n < 10")
    case True
    then show ?thesis
      by (subst nat_digits.simps) (simp add: digits_value_def digit_value_digit_char)
  next
    case False
    with 1 show ?thesis
      by (subst nat_digits.simps) (simp add: digits_value_snoc digit_value_digit_char)
  qed
qed

lemma hd_nat_digits_digit: "is_radix_digit 10 (hd (nat_digits n))"
  using nat_digits_all_digits [of n] nat_digits_nonempty [of n]
  by (cases "nat_digits n") simp_all

lemma hd_nat_digits_nonzero: "0 < n \<Longrightarrow> (of_char (hd (nat_digits n)) :: nat) \<noteq> 48"
proof (induction n rule: nat_digits.induct)
  case (1 n)
  show ?case
  proof (cases "n < 10")
    case True
    with 1(2) show ?thesis by (subst nat_digits.simps) (simp add: of_char_digit_char)
  next
    case False
    then have "0 < n div 10" by simp
    with 1 False show ?thesis
      by (subst nat_digits.simps) (simp add: nat_digits_nonempty)
  qed
qed

lemma digit_not_space: "is_radix_digit 10 c \<Longrightarrow> \<not> isStrWhiteSpace c"
  by (auto simp: is_radix_digit_def digit_value_def isStrWhiteSpace_def Let_def split: if_splits)

lemma digit_not_sign: "is_radix_digit 10 c \<Longrightarrow> c \<noteq> CHR ''-'' \<and> c \<noteq> CHR ''+''"
  by (auto simp: is_radix_digit_def digit_value_def Let_def split: if_splits)

lemma dropWhile_spaces:
  "list_all isStrWhiteSpace ws \<Longrightarrow> t \<noteq> [] \<Longrightarrow> \<not> isStrWhiteSpace (hd t)
     \<Longrightarrow> dropWhile isStrWhiteSpace (ws @ t) = t"
  by (induction ws) (auto simp: neq_Nil_conv)

lemma takeWhile_digits:
  "list_all P ds \<Longrightarrow> rest = [] \<or> \<not> P (hd rest) \<Longrightarrow> takeWhile P (ds @ rest) = ds"
  by (induction ds) (auto simp: neq_Nil_conv takeWhile_eq_Nil_iff)

lemma strip_radix_decimal:
  "ds \<noteq> [] \<Longrightarrow> (of_char (hd ds) :: nat) \<noteq> 48 \<Longrightarrow> strip_radix ds = (10, ds)"
  by (cases ds) (auto simp: strip_radix_def split: list.splits)

lemma parse_nat_digits:
  assumes "0 < n" and "rest = [] \<or> \<not> is_radix_digit 10 (hd rest)"
  shows "strip_radix (nat_digits n @ rest) = (10, nat_digits n @ rest)"
    and "takeWhile (is_radix_digit 10) (nat_digits n @ rest) = nat_digits n"
proof -
  have "hd (nat_digits n @ rest) = hd (nat_digits n)"
    by (simp add: nat_digits_nonempty)
  with hd_nat_digits_nonzero [OF assms(1)]
  show "strip_radix (nat_digits n @ rest) = (10, nat_digits n @ rest)"
    by (intro strip_radix_decimal) (simp_all add: nat_digits_nonempty)
  show "takeWhile (is_radix_digit 10) (nat_digits n @ rest) = nat_digits n"
    using assms(2) by (rule takeWhile_digits [OF nat_digits_all_digits])
qed

lemma strip_sign_js_toString:
  "strip_sign (js_toString n @ rest) = (n < 0, nat_digits (nat \<bar>n\<bar>) @ rest)"
proof (cases "n < 0")
  case True
  then show ?thesis by (simp add: js_toString_def strip_sign_def)
next
  case False
  obtain c cs where cs: "nat_digits (nat n) = c # cs"
    using nat_digits_nonempty [of "nat n"] by (cases "nat_digits (nat n)") auto
  with hd_nat_digits_digit [of "nat n"] have "c \<noteq> CHR ''-'' \<and> c \<noteq> CHR ''+''"
    by (simp add: digit_not_sign)
  with False cs show ?thesis by (simp add: js_toString_def strip_sign_def)
qed

lemma hd_js_toString_not_space: "\<not> isStrWhiteSpace (hd (js_toString n @ rest))"
proof (cases "n < 0")
  case True
  then show ?thesis by (simp add: js_toString_def isStrWhiteSpace_def)
next
  case False
  then show ?thesis
    using hd_nat_digits_digit [of "nat n"]
    by (simp add: js_toString_def nat_digits_nonempty digit_not_space)
qed

lemma parseInt_rendered:
  assumes "n \<noteq> 0" and "is_safe_integer n" and "list_all isStrWhiteSpace ws"
    and "rest = [] \<or> \<not> is_radix_digit 10 (hd rest)"
  shows "parseInt (ws @ js_toString n @ rest) = SafeInteger n"
proof -
  have ne: "js_toString n @ rest \<noteq> []"
    by (simp add: js_toString_def nat_digits_nonempty)
  have d: "dropWhile isStrWhiteSpace (ws @ js_toString n @ rest) = js_toString n @ rest"
    using assms(3) ne hd_js_toString_not_space by (rule dropWhile_spaces)
  define m where "m = nat \<bar>n\<bar>"
  from assms(1) have pos: "0 < m" by (simp add: m_def)
  have v: "(if n < 0 then - int m else int m) = n"
    by (simp add: m_def)
  have "parseInt (ws @ js_toString n @ rest) =
          (if is_safe_integer (if n < 0 then - int m else int m)
           then SafeInteger (if n < 0 then - int m else int m) else Rounded)"
    unfolding parseInt_def d strip_sign_js_toString m_def [symmetric]
    by (simp add: parse_nat_digits [OF pos assms(4)] nat_digits_nonempty
          digits_value_nat_digits Let_def)
  with assms(2) show ?thesis unfolding v by simp
qed

lemma parseInt_no_leading_digit:
  assumes "no_leading_digit text"
  shows "parseInt text = NaN"
proof -
  obtain neg s1 where s1: "strip_sign (dropWhile isStrWhiteSpace text) = (neg, s1)"
    by (cases "strip_sign (dropWhile isStrWhiteSpace text)")
  show ?thesis
  proof (cases s1)
    case Nil
    with s1 show ?thesis by (simp add: parseInt_def strip_radix_def)
  next
    case (Cons c cs)
    with assms s1 have nd: "\<not> is_radix_digit 10 c" by (simp add: no_leading_digit_def)
    then have "c \<noteq> CHR ''0''" by (auto simp: is_radix_digit_def digit_value_def)
    with Cons have "strip_radix s1 = (10, s1)"
      by (auto simp: strip_radix_def split: list.splits)
    with s1 Cons nd show ?thesis by (simp add: parseInt_def)
  qed
qed

text \<open>
  Claim C4, as stated, at concrete inputs: the texts \<open>150\<close> and \<open>-5\<close> are not integers of
  the range 0 to 100, and the scores passed on are 150 and -5, not 100.
\<close>

theorem afterSwap_out_of_range_counterexample:
  "map_option lastQualityScore (afterSwap (Some ''150'') ''quality-display'' initial_app) = Some 150
   \<and> map_option lastQualityScore (afterSwap (Some ''-5'') ''quality-display'' initial_app) =
       Some (- 5)"
  by (simp add: afterSwap_def scraped_score_def parseInt_def strip_sign_def strip_radix_def
        isStrWhiteSpace_def is_radix_digit_def digit_value_def digits_value_def
        is_safe_integer_def max_safe_integer_def lastQualityScore_checkForAlerts)

text \<open>
  Claim C4, amended. The listener makes no test of the range 0 to 100. When the text of the
  region is the decimal rendering of a safe integer \<open>n\<close> other than 0 (so at most
  \<open>2^53 - 1\<close> in absolute value), possibly after white space and before anything that is
  not a digit, the listener passes \<open>n\<close> to \<open>checkForAlerts\<close>, whether or not \<open>n\<close> lies
  between 0 and 100. When no number starts the text, it passes 100.
\<close>

theorem afterSwap_passes_parsed_score:
  "(n \<noteq> 0 \<and> is_safe_integer n \<and> list_all isStrWhiteSpace ws
      \<and> (rest = [] \<or> \<not> is_radix_digit 10 (hd rest)) \<longrightarrow>
      afterSwap (Some (ws @ js_toString n @ rest)) ''quality-display'' s =
        Some (checkForAlerts s n))
   \<and> (no_leading_digit text \<longrightarrow>
      afterSwap (Some text) ''quality-display'' s = Some (checkForAlerts s 100))"
  by (simp add: afterSwap_def scraped_score_def parseInt_rendered parseInt_no_leading_digit)

theorem afterSwap_passes_parsed_score_witness:
  "afterSwap (Some '' 150%'') ''quality-display'' initial_app =
     Some (checkForAlerts initial_app 150)
   \<and> afterSwap (Some ''n/a'') ''quality-display'' initial_app =
     Some (checkForAlerts initial_app 100)"
proof -
  have a: "(150::int) \<noteq> 0 \<and> is_safe_integer 150 \<and> list_all isStrWhiteSpace '' ''
           \<and> (''%'' = [] \<or> \<not> is_radix_digit 10 (hd ''%''))"
    by (simp add: isStrWhiteSpace_def is_radix_digit_def digit_value_def is_safe_integer_def
          max_safe_integer_def)
  have b: "no_leading_digit ''n/a''"
    by (simp add: no_leading_digit_def isStrWhiteSpace_def strip_sign_def is_radix_digit_def
          digit_value_def)
  have c: "'' '' @ js_toString 150 @ ''%'' = '' 150%''"
    by code_simp
  from afterSwap_passes_parsed_score [of 150 "'' ''" "''%''" initial_app "''n/a''"] a b
  show ?thesis unfolding c by blast
qed

section \<open>Properties of charts.js\<close>

subsection \<open>The shape of the charts\<close>

lemma new_chart_simps:
  "new_chart 2 = \<lparr>labels = [], datasets = [Some [], Some []], redraws = 0\<rparr>"
  "new_chart 1 = \<lparr>labels = [], datasets = [Some []], redraws = 0\<rparr>"
  "new_chart (Suc 0) = \<lparr>labels = [], datasets = [Some []], redraws = 0\<rparr>"
  by (simp_all add: new_chart_def numeral_2_eq_2)

lemma domContentLoaded_all_canvases:
  "domContentLoaded (\<lambda>c. True) Map.empty [] =
     \<lparr>latencyChart = Some (new_chart 2), lossChart = Some (new_chart 1),
      historyPingChart = Some (new_chart 2), historyQualityChart = Some (new_chart 1),
      historyLossChart = Some (new_chart 1), historySignalChart = Some (new_chart 1),
      currentPeriod = ''day'', requests = [], console_error = [],
      document = Map.empty, buttons = []\<rparr>"
  by (simp add: domContentLoaded_def initHistoryCharts_def initCharts_def initial_charts_def)

lemma panel_page_simps:
  "document panel_page = score_panel" "buttons panel_page = period_buttons"
  "requests panel_page = []" "console_error panel_page = []"
  by (simp_all add: panel_page_def domContentLoaded_def initHistoryCharts_def initCharts_def
        initial_charts_def)

lemma score_panel_simps:
  "score_panel ''lt-grade'' = Some blank" "score_panel ''lt-score'' = Some blank"
  "score_panel ''lt-message'' = Some blank" "score_panel ''lt-stats'' = Some blank"
  "score_panel ''lt-ping-bar'' = Some blank" "score_panel ''lt-ping-score'' = Some blank"
  by (simp_all add: score_panel_def)

lemma charts_created_domContentLoaded: "charts_created (domContentLoaded canvas doc btns)"
  by (simp add: domContentLoaded_def charts_created_def shaped_def initHistoryCharts_def
        initCharts_def initial_charts_def new_chart_def Let_def)

lemma keeps_datasets_basic:
  "keeps_datasets (set_labels ts)" "keeps_datasets (set_dataset i v)" "keeps_datasets chart_update"
  by (simp_all add: keeps_datasets_def set_labels_def set_dataset_def chart_update_def)

lemma keeps_datasets_seq:
  "keeps_datasets f \<Longrightarrow> keeps_datasets g \<Longrightarrow> keeps_datasets (seq f g)"
  by (auto simp: keeps_datasets_def seq_def split: prod.splits option.splits)
     (metis snd_conv)+

lemmas keeps_datasets_intros = keeps_datasets_seq keeps_datasets_basic

lemma shaped_when_window:
  assumes "\<And>l. keeps_datasets (body l)" and "shaped n h"
  shows "shaped n (snd (when_window h ts body))"
proof (cases h)
  case None
  then show ?thesis by (simp add: when_window_def shaped_def)
next
  case (Some ch)
  show ?thesis
  proof (cases ts)
    case None
    with Some assms(2) show ?thesis by (simp add: when_window_def)
  next
    case (Some l)
    from assms(1) have "length (datasets (snd (body l ch))) = length (datasets ch)"
      by (simp add: keeps_datasets_def)
    with \<open>h = Some ch\<close> Some assms(2) show ?thesis
      by (auto simp: when_window_def shaped_def split: prod.splits)
  qed
qed

lemma snd_case_pair: "snd (case p of (e, h) \<Rightarrow> (e, g h)) = g (snd p)"
  by (cases p) simp

lemma charts_created_log_error: "charts_created (log_error msg e s) = charts_created s"
  by (simp add: charts_created_def log_error_def)

lemma charts_created_short_blocks:
  assumes "charts_created s"
  shows "charts_created (snd (updateCharts_latency d s))"
    and "charts_created (snd (updateCharts_loss d s))"
  using assms
    shaped_when_window [of "\<lambda>ts. seq (set_labels ts)
        (seq (set_dataset 0 (ping d)) (seq (set_dataset 1 (jitter d)) chart_update))"
        2 "latencyChart s" "timestamps d"]
    shaped_when_window [of "\<lambda>ts. seq (set_labels ts)
        (seq (set_dataset 0 (packet_loss d)) chart_update)" 1 "lossChart s" "timestamps d"]
  by (simp_all add: charts_created_def updateCharts_latency_def updateCharts_loss_def
        keeps_datasets_intros snd_case_pair)

lemma charts_created_updateCharts:
  assumes "charts_created s"
  shows "charts_created (updateCharts response s)"
proof -
  have s0: "charts_created (updateCharts_fetch s)"
    using assms by (simp add: charts_created_def updateCharts_fetch_def)
  show ?thesis
  proof (cases response)
    case (Inl e)
    with s0 show ?thesis
      by (simp add: updateCharts_def updateCharts_response_def try_catch_def
            charts_created_log_error)
  next
    case (Inr d)
    obtain e1 s1 where 1: "updateCharts_latency d (updateCharts_fetch s) = (e1, s1)"
      by (cases "updateCharts_latency d (updateCharts_fetch s)")
    obtain e2 s2 where 2: "updateCharts_loss d s1 = (e2, s2)"
      by (cases "updateCharts_loss d s1")
    from charts_created_short_blocks(1) [OF s0, of d] 1 have c1: "charts_created s1" by simp
    from charts_created_short_blocks(2) [OF c1, of d] 2 have c2: "charts_created s2" by simp
    from Inr 1 2 c1 c2 show ?thesis
      by (simp add: updateCharts_def updateCharts_response_def try_catch_def seq_def
            charts_created_log_error split: option.splits)
  qed
qed

lemma charts_created_long_blocks:
  assumes "charts_created s"
  shows "charts_created (snd (updateHistoryCharts_ping d s))"
    and "charts_created (snd (updateHistoryCharts_quality d s))"
    and "charts_created (snd (updateHistoryCharts_loss d s))"
    and "charts_created (snd (updateHistoryCharts_signal d s))"
  using assms
    shaped_when_window [of "\<lambda>ts. seq (set_labels ts)
        (seq (set_dataset 0 (ping d)) (seq (set_dataset 1 (jitter d)) chart_update))"
        2 "historyPingChart s" "timestamps d"]
    shaped_when_window [of "\<lambda>ts. seq (set_labels ts)
        (seq (set_dataset 0 (quality d)) chart_update)" 1 "historyQualityChart s" "timestamps d"]
    shaped_when_window [of "\<lambda>ts. seq (set_labels ts)
        (seq (set_dataset 0 (packet_loss d)) chart_update)" 1 "historyLossChart s" "timestamps d"]
    shaped_when_window [of "\<lambda>ts. seq (set_labels ts)
        (seq (set_dataset 0 (signal d)) chart_update)" 1 "historySignalChart s" "timestamps d"]
  by (simp_all add: charts_created_def updateHistoryCharts_ping_def
        updateHistoryCharts_quality_def updateHistoryCharts_loss_def
        updateHistoryCharts_signal_def keeps_datasets_intros snd_case_pair)

lemma charts_created_updateHistoryCharts:
  assumes "charts_created s"
  shows "charts_created (updateHistoryCharts period response s)"
proof -
  have s0: "charts_created (updateHistoryCharts_fetch period s)"
    using assms
    by (simp add: charts_created_def updateHistoryCharts_fetch_def set_period_def Let_def
          split: option.splits)
  show ?thesis
  proof (cases response)
    case (Inl e)
    with s0 show ?thesis
      by (simp add: updateHistoryCharts_def updateHistoryCharts_response_def try_catch_def
            charts_created_log_error)
  next
    case (Inr d)
    obtain e1 s1 where 1: "updateHistoryCharts_ping d (updateHistoryCharts_fetch period s) = (e1, s1)"
      by (cases "updateHistoryCharts_ping d (updateHistoryCharts_fetch period s)")
    obtain e2 s2 where 2: "updateHistoryCharts_quality d s1 = (e2, s2)"
      by (cases "updateHistoryCharts_quality d s1")
    obtain e3 s3 where 3: "updateHistoryCharts_loss d s2 = (e3, s3)"
      by (cases "updateHistoryCharts_loss d s2")
    obtain e4 s4 where 4: "updateHistoryCharts_signal d s3 = (e4, s4)"
      by (cases "updateHistoryCharts_signal d s3")
    from charts_created_long_blocks(1) [OF s0, of d] 1 have c1: "charts_created s1" by simp
    from charts_created_long_blocks(2) [OF c1, of d] 2 have c2: "charts_created s2" by simp
    from charts_created_long_blocks(3) [OF c2, of d] 3 have c3: "charts_created s3" by simp
    from charts_created_long_blocks(4) [OF c3, of d] 4 have c4: "charts_created s4" by simp
    from Inr 1 2 3 4 c1 c2 c3 c4 show ?thesis
      by (simp add: updateHistoryCharts_def updateHistoryCharts_response_def try_catch_def
            seq_def charts_created_log_error split: option.splits)
  qed
qed

subsection \<open>Windows assigned to the charts\<close>

lemma when_window_empty: "when_window h (Some []) body = (None, h)"
  by (simp add: when_window_def split: option.splits)

lemma when_window_two:
  assumes "shaped 2 h" and "ts \<noteq> []"
  shows "when_window h (Some ts)
           (\<lambda>ts. seq (set_labels ts) (seq (set_dataset 0 a) (seq (set_dataset 1 b) chart_update)))
         = (None, shown ts [a, b] h)"
proof (cases h)
  case None
  then show ?thesis by (simp add: when_window_def shown_def)
next
  case (Some ch)
  with assms(1) obtain x y where xy: "datasets ch = [x, y]"
    by (auto simp: shaped_def length_Suc_conv numeral_2_eq_2)
  with Some assms(2) show ?thesis
    by (simp add: when_window_def shown_def seq_def set_labels_def set_dataset_def
          chart_update_def)
qed

lemma when_window_one:
  assumes "shaped 1 h" and "ts \<noteq> []"
  shows "when_window h (Some ts) (\<lambda>ts. seq (set_labels ts) (seq (set_dataset 0 a) chart_update))
         = (None, shown ts [a] h)"
proof (cases h)
  case None
  then show ?thesis by (simp add: when_window_def shown_def)
next
  case (Some ch)
  with assms(1) obtain x where "datasets ch = [x]"
    by (auto simp: shaped_def length_Suc_conv)
  with Some assms(2) show ?thesis
    by (simp add: when_window_def shown_def seq_def set_labels_def set_dataset_def
          chart_update_def)
qed

lemma updateCharts_response_failure:
  "updateCharts_response (Inl e) s = log_error ''Error updating charts:'' e s"
  by (simp add: updateCharts_response_def try_catch_def)

lemma updateCharts_response_empty:
  "timestamps d = Some [] \<Longrightarrow> updateCharts_response (Inr d) s = s"
  by (simp add: updateCharts_response_def try_catch_def seq_def updateCharts_latency_def
        updateCharts_loss_def when_window_empty)

lemma updateCharts_latency_window:
  assumes "shaped 2 (latencyChart s)" and "timestamps d = Some ts" and "ts \<noteq> []"
  shows "updateCharts_latency d s =
           (None, s\<lparr>latencyChart := shown ts [ping d, jitter d] (latencyChart s)\<rparr>)"
  unfolding updateCharts_latency_def assms(2) when_window_two [OF assms(1,3)] by simp

lemma updateCharts_loss_window:
  assumes "shaped 1 (lossChart s)" and "timestamps d = Some ts" and "ts \<noteq> []"
  shows "updateCharts_loss d s =
           (None, s\<lparr>lossChart := shown ts [packet_loss d] (lossChart s)\<rparr>)"
  unfolding updateCharts_loss_def assms(2) when_window_one [OF assms(1,3)] by simp

lemma updateCharts_response_window:
  assumes "shaped 2 (latencyChart s)" and "shaped 1 (lossChart s)"
    and "timestamps d = Some ts" and "ts \<noteq> []"
  shows "updateCharts_response (Inr d) s =
           s\<lparr>latencyChart := shown ts [ping d, jitter d] (latencyChart s),
             lossChart := shown ts [packet_loss d] (lossChart s)\<rparr>"
proof -
  let ?s1 = "s\<lparr>latencyChart := shown ts [ping d, jitter d] (latencyChart s)\<rparr>"
  from assms(2) have "shaped 1 (lossChart ?s1)" by simp
  from updateCharts_loss_window [OF this assms(3,4)]
  show ?thesis
    by (simp add: updateCharts_response_def try_catch_def seq_def
          updateCharts_latency_window [OF assms(1,3,4)])
qed

lemma charts_of_log_error: "charts_of (log_error msg e s) = charts_of s"
  by (simp add: charts_of_def log_error_def)

lemma charts_of_updateCharts_fetch: "charts_of (updateCharts_fetch s) = charts_of s"
  by (simp add: charts_of_def updateCharts_fetch_def)

lemma shaped_updateCharts_fetch:
  "latencyChart (updateCharts_fetch s) = latencyChart s"
  "lossChart (updateCharts_fetch s) = lossChart s"
  by (simp_all add: updateCharts_fetch_def)

lemma charts_updateCharts_failure:
  "latencyChart (updateCharts (Inl e) s) = latencyChart s"
  "lossChart (updateCharts (Inl e) s) = lossChart s"
  by (simp_all add: updateCharts_def updateCharts_response_failure log_error_def
        updateCharts_fetch_def)

text \<open>
  Claim C2. A short-term poll whose fetch fails leaves all six charts as they were (labels,
  dataset arrays, number of redraws), and so does a poll whose response has an empty
  \<open>timestamps\<close> array. When a failed poll is followed by a poll whose response has at least
  one timestamp, each of the two short-term charts that exists holds exactly the arrays of
  that response: its timestamps as labels, \<open>ping\<close> and \<open>jitter\<close>, respectively
  \<open>packet_loss\<close>, as datasets; nothing of the failed poll is in them.
\<close>

theorem updateCharts_failed_poll_keeps_charts:
  "charts_of (updateCharts (Inl e) s) = charts_of s
   \<and> (timestamps d = Some [] \<longrightarrow> charts_of (updateCharts (Inr d) s) = charts_of s)
   \<and> (charts_created s \<and> timestamps d = Some ts \<and> ts \<noteq> [] \<longrightarrow>
        latencyChart (updateCharts (Inr d) (updateCharts (Inl e) s)) =
          shown ts [ping d, jitter d] (latencyChart s)
        \<and> lossChart (updateCharts (Inr d) (updateCharts (Inl e) s)) =
          shown ts [packet_loss d] (lossChart s))"
proof (intro conjI impI)
  show "charts_of (updateCharts (Inl e) s) = charts_of s"
    by (simp add: updateCharts_def updateCharts_response_failure charts_of_log_error
          charts_of_updateCharts_fetch)
next
  assume "timestamps d = Some []"
  then show "charts_of (updateCharts (Inr d) s) = charts_of s"
    by (simp add: updateCharts_def updateCharts_response_empty charts_of_updateCharts_fetch)
next
  assume a: "charts_created s \<and> timestamps d = Some ts \<and> ts \<noteq> []"
  let ?s1 = "updateCharts_fetch (updateCharts (Inl e) s)"
  from a have sh: "shaped 2 (latencyChart ?s1)" "shaped 1 (lossChart ?s1)"
    by (simp_all add: charts_created_def shaped_updateCharts_fetch charts_updateCharts_failure)
  from a have ts: "timestamps d = Some ts" "ts \<noteq> []" by simp_all
  have eq: "updateCharts (Inr d) (updateCharts (Inl e) s) =
        ?s1\<lparr>latencyChart := shown ts [ping d, jitter d] (latencyChart ?s1),
            lossChart := shown ts [packet_loss d] (lossChart ?s1)\<rparr>"
    unfolding updateCharts_def [of "Inr d"]
    by (rule updateCharts_response_window [OF sh ts])
  show "latencyChart (updateCharts (Inr d) (updateCharts (Inl e) s)) =
          shown ts [ping d, jitter d] (latencyChart s)"
    unfolding eq by (simp add: shaped_updateCharts_fetch charts_updateCharts_failure)
  show "lossChart (updateCharts (Inr d) (updateCharts (Inl e) s)) =
          shown ts [packet_loss d] (lossChart s)"
    unfolding eq by (simp add: shaped_updateCharts_fetch charts_updateCharts_failure)
qed

theorem updateCharts_failed_poll_keeps_charts_witness:
  "charts_of (updateCharts (Inr (steady_history\<lparr>timestamps := Some []\<rparr>))
               (domContentLoaded (\<lambda>c. True) Map.empty [])) =
     charts_of (domContentLoaded (\<lambda>c. True) Map.empty [])
   \<and> latencyChart (updateCharts (Inr steady_history)
        (updateCharts (Inl FetchError) (domContentLoaded (\<lambda>c. True) Map.empty []))) =
       Some \<lparr>labels = [''12:00:00''], datasets = [Some [Some 18], Some [Some 2]], redraws = 1\<rparr>
   \<and> lossChart (updateCharts (Inr steady_history)
        (updateCharts (Inl FetchError) (domContentLoaded (\<lambda>c. True) Map.empty []))) =
       Some \<lparr>labels = [''12:00:00''], datasets = [Some [Some 0]], redraws = 1\<rparr>"
proof -
  let ?s = "domContentLoaded (\<lambda>c. True) Map.empty []"
  have a: "timestamps (steady_history\<lparr>timestamps := Some []\<rparr>) = Some []" by simp
  have b: "charts_created ?s \<and> timestamps steady_history = Some [''12:00:00'']
           \<and> [''12:00:00''] \<noteq> []"
    by (simp add: charts_created_domContentLoaded steady_history_def)
  from updateCharts_failed_poll_keeps_charts
         [of FetchError ?s "steady_history\<lparr>timestamps := Some []\<rparr>"] a
  have 1: "charts_of (updateCharts (Inr (steady_history\<lparr>timestamps := Some []\<rparr>)) ?s) =
             charts_of ?s"
    by blast
  from updateCharts_failed_poll_keeps_charts
         [of FetchError ?s steady_history "[''12:00:00'']"] b
  have 2: "latencyChart (updateCharts (Inr steady_history) (updateCharts (Inl FetchError) ?s)) =
          shown [''12:00:00''] [ping steady_history, jitter steady_history] (latencyChart ?s)
        \<and> lossChart (updateCharts (Inr steady_history) (updateCharts (Inl FetchError) ?s)) =
          shown [''12:00:00''] [packet_loss steady_history] (lossChart ?s)"
    by blast
  have 3: "shown [''12:00:00''] [ping steady_history, jitter steady_history] (latencyChart ?s) =
       Some \<lparr>labels = [''12:00:00''], datasets = [Some [Some 18], Some [Some 2]], redraws = 1\<rparr>"
     "shown [''12:00:00''] [packet_loss steady_history] (lossChart ?s) =
       Some \<lparr>labels = [''12:00:00''], datasets = [Some [Some 0]], redraws = 1\<rparr>"
    by (simp_all add: domContentLoaded_all_canvases shown_def new_chart_simps steady_history_def)
  from 1 2 show ?thesis unfolding 3 by simp
qed

lemma updateHistoryCharts_ping_window:
  assumes "shaped 2 (historyPingChart s)" and "timestamps d = Some ts" and "ts \<noteq> []"
  shows "updateHistoryCharts_ping d s =
           (None, s\<lparr>historyPingChart := shown ts [ping d, jitter d] (historyPingChart s)\<rparr>)"
  unfolding updateHistoryCharts_ping_def assms(2) when_window_two [OF assms(1,3)] by simp

lemma updateHistoryCharts_quality_window:
  assumes "shaped 1 (historyQualityChart s)" and "timestamps d = Some ts" and "ts \<noteq> []"
  shows "updateHistoryCharts_quality d s =
           (None, s\<lparr>historyQualityChart := shown ts [quality d] (historyQualityChart s)\<rparr>)"
  unfolding updateHistoryCharts_quality_def assms(2) when_window_one [OF assms(1,3)] by simp

lemma updateHistoryCharts_loss_window:
  assumes "shaped 1 (historyLossChart s)" and "timestamps d = Some ts" and "ts \<noteq> []"
  shows "updateHistoryCharts_loss d s =
           (None, s\<lparr>historyLossChart := shown ts [packet_loss d] (historyLossChart s)\<rparr>)"
  unfolding updateHistoryCharts_loss_def assms(2) when_window_one [OF assms(1,3)] by simp

lemma updateHistoryCharts_signal_window:
  assumes "shaped 1 (historySignalChart s)" and "timestamps d = Some ts" and "ts \<noteq> []"
  shows "updateHistoryCharts_signal d s =
           (None, s\<lparr>historySignalChart := shown ts [signal d] (historySignalChart s)\<rparr>)"
  unfolding updateHistoryCharts_signal_def assms(2) when_window_one [OF assms(1,3)] by simp

lemma updateHistoryCharts_response_window:
  assumes "charts_created s" and "timestamps d = Some ts" and "ts \<noteq> []"
  shows "updateHistoryCharts_response (Inr d) s =
           s\<lparr>historyPingChart := shown ts [ping d, jitter d] (historyPingChart s),
             historyQualityChart := shown ts [quality d] (historyQualityChart s),
             historyLossChart := shown ts [packet_loss d] (historyLossChart s),
             historySignalChart := shown ts [signal d] (historySignalChart s)\<rparr>"
proof -
  let ?s1 = "s\<lparr>historyPingChart := shown ts [ping d, jitter d] (historyPingChart s)\<rparr>"
  let ?s2 = "?s1\<lparr>historyQualityChart := shown ts [quality d] (historyQualityChart s)\<rparr>"
  let ?s3 = "?s2\<lparr>historyLossChart := shown ts [packet_loss d] (historyLossChart s)\<rparr>"
  from assms(1) have sh: "shaped 2 (historyPingChart s)" "shaped 1 (historyQualityChart ?s1)"
      "shaped 1 (historyLossChart ?s2)" "shaped 1 (historySignalChart ?s3)"
    by (simp_all add: charts_created_def)
  have 1: "updateHistoryCharts_ping d s = (None, ?s1)"
    by (rule updateHistoryCharts_ping_window [OF sh(1) assms(2,3)])
  have 2: "updateHistoryCharts_quality d ?s1 = (None, ?s2)"
    using updateHistoryCharts_quality_window [OF sh(2) assms(2,3)] by simp
  have 3: "updateHistoryCharts_loss d ?s2 = (None, ?s3)"
    using updateHistoryCharts_loss_window [OF sh(3) assms(2,3)] by simp
  have 4: "updateHistoryCharts_signal d ?s3 =
             (None, ?s3\<lparr>historySignalChart := shown ts [signal d] (historySignalChart s)\<rparr>)"
    using updateHistoryCharts_signal_window [OF sh(4) assms(2,3)] by simp
  show ?thesis
    by (simp add: updateHistoryCharts_response_def try_catch_def seq_def 1 2 3 4)
qed

lemma when_window_no_timestamps:
  "ts = None \<or> ts = Some [] \<Longrightarrow> snd (when_window h ts body) = h"
  by (auto simp: when_window_def split: option.splits)

lemma seq_keeps: "snd (f s) = s \<Longrightarrow> snd (g s) = s \<Longrightarrow> snd (seq f g s) = s"
  by (cases "f s") (auto simp: seq_def split: option.splits)

lemma try_catch_keeps_charts:
  "snd (body s) = s \<Longrightarrow> charts_of (try_catch body (log_error msg) s) = charts_of s"
  by (cases "body s") (auto simp: try_catch_def charts_of_log_error split: option.splits)

lemma short_blocks_no_timestamps:
  assumes "timestamps d = None \<or> timestamps d = Some []"
  shows "snd (updateCharts_latency d s) = s" and "snd (updateCharts_loss d s) = s"
  using assms
  by (simp_all add: updateCharts_latency_def updateCharts_loss_def snd_case_pair
        when_window_no_timestamps)

lemma long_blocks_no_timestamps:
  assumes "timestamps d = None \<or> timestamps d = Some []"
  shows "snd (updateHistoryCharts_ping d s) = s" and "snd (updateHistoryCharts_quality d s) = s"
    and "snd (updateHistoryCharts_loss d s) = s" and "snd (updateHistoryCharts_signal d s) = s"
  using assms
  by (simp_all add: updateHistoryCharts_ping_def updateHistoryCharts_quality_def
        updateHistoryCharts_loss_def updateHistoryCharts_signal_def snd_case_pair
        when_window_no_timestamps)

lemma updateCharts_response_no_timestamps:
  assumes "timestamps d = None \<or> timestamps d = Some []"
  shows "charts_of (updateCharts_response (Inr d) s) = charts_of s"
  unfolding updateCharts_response_def
  by (rule try_catch_keeps_charts)
     (simp add: seq_keeps short_blocks_no_timestamps [OF assms])

lemma updateHistoryCharts_response_no_timestamps:
  assumes "timestamps d = None \<or> timestamps d = Some []"
  shows "charts_of (updateHistoryCharts_response (Inr d) s) = charts_of s"
  unfolding updateHistoryCharts_response_def
  by (rule try_catch_keeps_charts)
     (simp add: seq_keeps long_blocks_no_timestamps [OF assms])

lemma responses_failure_keep_charts:
  "charts_of (updateCharts_response (Inl e) s) = charts_of s"
  "charts_of (updateHistoryCharts_response (Inl e) s) = charts_of s"
  by (simp_all add: updateCharts_response_def updateHistoryCharts_response_def try_catch_def
        charts_of_log_error)

text \<open>
  Claim C3, as stated, at a concrete input: the short-term charts hold a well-formed window
  of one sample; the next response has two timestamps, one \<open>ping\<close> value, no \<open>jitter\<close>
  value and three \<open>packet_loss\<close> values. It is rendered all the same, and the previous
  window is gone. The long-term charts do likewise.
\<close>

theorem ragged_window_counterexample:
  "latencyChart (updateCharts (Inr steady_history) (domContentLoaded (\<lambda>c. True) Map.empty [])) =
     Some \<lparr>labels = [''12:00:00''], datasets = [Some [Some 18], Some [Some 2]], redraws = 1\<rparr>
   \<and> latencyChart (updateCharts (Inr ragged_history)
         (updateCharts (Inr steady_history) (domContentLoaded (\<lambda>c. True) Map.empty []))) =
     Some \<lparr>labels = [''12:00:01'', ''12:00:02''], datasets = [Some [Some 20], Some []],
           redraws = 2\<rparr>
   \<and> lossChart (updateCharts (Inr ragged_history)
         (updateCharts (Inr steady_history) (domContentLoaded (\<lambda>c. True) Map.empty []))) =
     Some \<lparr>labels = [''12:00:01'', ''12:00:02''], datasets = [Some [Some 0, Some 0, Some 0]],
           redraws = 2\<rparr>
   \<and> historyQualityChart
       (updateHistoryCharts None (Inr ragged_longterm) (domContentLoaded (\<lambda>c. True) Map.empty [])) =
     Some \<lparr>labels = [''Mon'', ''Tue''], datasets = [Some [Some 90]], redraws = 1\<rparr>"
  by (simp add: domContentLoaded_all_canvases updateCharts_def updateCharts_fetch_def
      updateCharts_response_def updateHistoryCharts_def updateHistoryCharts_fetch_def
      updateHistoryCharts_response_def set_period_def
      try_catch_def seq_def updateCharts_latency_def updateCharts_loss_def
      updateHistoryCharts_ping_def updateHistoryCharts_quality_def
      updateHistoryCharts_loss_def updateHistoryCharts_signal_def
      when_window_def set_labels_def set_dataset_def chart_update_def new_chart_simps
      steady_history_def ragged_history_def ragged_longterm_def)

text \<open>
  Claim C3, amended. The lengths of the arrays are never compared. Whenever the response
  has at least one timestamp, every existing chart gets the arrays of the response and is
  redrawn, in the short-term update and in the long-term update alike, whether the arrays
  are equally long or not. The charts keep the previous window when the fetch fails, and
  when the response has no \<open>timestamps\<close> array or an empty one.
\<close>

theorem updates_render_whatever_the_lengths:
  "(charts_created s \<and> timestamps d = Some ts \<and> ts \<noteq> [] \<longrightarrow>
      updateCharts_response (Inr d) s =
        s\<lparr>latencyChart := shown ts [ping d, jitter d] (latencyChart s),
          lossChart := shown ts [packet_loss d] (lossChart s)\<rparr>)
   \<and> (charts_created s \<and> timestamps h = Some ts \<and> ts \<noteq> [] \<longrightarrow>
      updateHistoryCharts_response (Inr h) s =
        s\<lparr>historyPingChart := shown ts [ping h, jitter h] (historyPingChart s),
          historyQualityChart := shown ts [quality h] (historyQualityChart s),
          historyLossChart := shown ts [packet_loss h] (historyLossChart s),
          historySignalChart := shown ts [signal h] (historySignalChart s)\<rparr>)
   \<and> charts_of (updateCharts_response (Inl e) s) = charts_of s
   \<and> charts_of (updateHistoryCharts_response (Inl e) s) = charts_of s
   \<and> (timestamps d = None \<or> timestamps d = Some [] \<longrightarrow>
      charts_of (updateCharts_response (Inr d) s) = charts_of s)
   \<and> (timestamps h = None \<or> timestamps h = Some [] \<longrightarrow>
      charts_of (updateHistoryCharts_response (Inr h) s) = charts_of s)"
  using updateCharts_response_no_timestamps [of d s]
    updateHistoryCharts_response_no_timestamps [of h s]
  by (simp add: updateCharts_response_window updateHistoryCharts_response_window
        charts_created_def responses_failure_keep_charts)

theorem updates_render_whatever_the_lengths_witness:
  "updateCharts_response (Inr ragged_history) (domContentLoaded (\<lambda>c. True) Map.empty []) =
     (domContentLoaded (\<lambda>c. True) Map.empty [])
       \<lparr>latencyChart := Some \<lparr>labels = [''12:00:01'', ''12:00:02''],
                              datasets = [Some [Some 20], Some []], redraws = 1\<rparr>,
        lossChart := Some \<lparr>labels = [''12:00:01'', ''12:00:02''],
                           datasets = [Some [Some 0, Some 0, Some 0]], redraws = 1\<rparr>\<rparr>
   \<and> charts_of (updateCharts_response (Inr (ragged_history\<lparr>timestamps := None\<rparr>))
                 (domContentLoaded (\<lambda>c. True) Map.empty [])) =
       charts_of (domContentLoaded (\<lambda>c. True) Map.empty [])"
proof -
  let ?s = "domContentLoaded (\<lambda>c. True) Map.empty []"
  have "charts_created ?s \<and> timestamps ragged_history = Some [''12:00:01'', ''12:00:02'']
        \<and> [''12:00:01'', ''12:00:02''] \<noteq> []"
    by (simp add: charts_created_domContentLoaded ragged_history_def)
  with updates_render_whatever_the_lengths
         [of ?s ragged_history "[''12:00:01'', ''12:00:02'']"]
  have 1: "updateCharts_response (Inr ragged_history) ?s =
          ?s\<lparr>latencyChart := shown [''12:00:01'', ''12:00:02'']
                 [ping ragged_history, jitter ragged_history] (latencyChart ?s),
             lossChart := shown [''12:00:01'', ''12:00:02'']
                 [packet_loss ragged_history] (lossChart ?s)\<rparr>"
    by blast
  have "timestamps (ragged_history\<lparr>timestamps := None\<rparr>) = None
        \<or> timestamps (ragged_history\<lparr>timestamps := None\<rparr>) = Some []"
    by simp
  with updates_render_whatever_the_lengths [of ?s "ragged_history\<lparr>timestamps := None\<rparr>"]
  have 2: "charts_of (updateCharts_response (Inr (ragged_history\<lparr>timestamps := None\<rparr>)) ?s) =
             charts_of ?s"
    by blast
  from 1 have "updateCharts_response (Inr ragged_history) ?s =
     ?s\<lparr>latencyChart := Some \<lparr>labels = [''12:00:01'', ''12:00:02''],
                              datasets = [Some [Some 20], Some []], redraws = 1\<rparr>,
        lossChart := Some \<lparr>labels = [''12:00:01'', ''12:00:02''],
                           datasets = [Some [Some 0, Some 0, Some 0]], redraws = 1\<rparr>\<rparr>"
    by (simp add: domContentLoaded_all_canvases shown_def new_chart_simps ragged_history_def)
  with 2 show ?thesis by simp
qed

subsection \<open>The colour of a packet-loss bar\<close>

lemma colours_distinct:
  "colour_high \<noteq> colour_medium" "colour_high \<noteq> colour_low" "colour_high \<noteq> colour_nominal"
  "colour_medium \<noteq> colour_low" "colour_medium \<noteq> colour_nominal" "colour_low \<noteq> colour_nominal"
  by (simp_all add: colour_high_def colour_medium_def colour_low_def colour_nominal_def)

lemma lossChart_backgroundColor_cases:
  "lossChart_backgroundColor (Some v) =
     (if v > 5 then colour_high else if v > 1 then colour_medium
      else if v > 0 then colour_low else colour_nominal)"
  by (simp add: lossChart_backgroundColor_def raw_or_zero_def colour_high_def colour_medium_def
        colour_low_def colour_nominal_def)

lemma same_backgroundColor: "historyLossChart_backgroundColor raw = lossChart_backgroundColor raw"
  by (simp add: historyLossChart_backgroundColor_def lossChart_backgroundColor_def)

text \<open>
  Claim C6. For a packet loss \<open>v\<close>, the bar of the short-term chart is of the
  high-severity colour exactly when \<open>v > 5\<close>, of the medium colour exactly when
  \<open>1 < v \<le> 5\<close>, of the low colour exactly when \<open>0 < v \<le> 1\<close>, and of the nominal
  colour exactly when \<open>v \<le> 0\<close>, which for a loss, a percentage and so not negative, is
  exactly when \<open>v = 0\<close>. The long-term chart colours every value as the short-term chart
  does.
\<close>

theorem loss_colour_thresholds:
  "(lossChart_backgroundColor (Some v) = colour_high) = (v > 5)
   \<and> (lossChart_backgroundColor (Some v) = colour_medium) = (1 < v \<and> v \<le> 5)
   \<and> (lossChart_backgroundColor (Some v) = colour_low) = (0 < v \<and> v \<le> 1)
   \<and> (lossChart_backgroundColor (Some v) = colour_nominal) = (v \<le> 0)
   \<and> (0 \<le> v \<longrightarrow> (lossChart_backgroundColor (Some v) = colour_nominal) = (v = 0))
   \<and> historyLossChart_backgroundColor raw = lossChart_backgroundColor raw"
  using colours_distinct
  by (simp add: lossChart_backgroundColor_cases same_backgroundColor)

theorem loss_colour_thresholds_witness:
  "lossChart_backgroundColor (Some 0) = colour_nominal
   \<and> lossChart_backgroundColor (Some 0.5) = colour_low
   \<and> lossChart_backgroundColor (Some 5) = colour_medium
   \<and> lossChart_backgroundColor (Some 5.5) = colour_high
   \<and> historyLossChart_backgroundColor (Some 5.5) = colour_high"
  using loss_colour_thresholds [of 0 "Some 5.5"] loss_colour_thresholds [of "0.5"]
    loss_colour_thresholds [of 5] loss_colour_thresholds [of "5.5"]
  by simp

subsection \<open>The period selector\<close>

text \<open>
  Claim C7. A click on a period control that carries a period \<open>p\<close> issues exactly two
  requests, first the one for the long-term history and then the one for the long-term
  score, both with \<open>period=p\<close>; \<open>p\<close> becomes the current period; afterwards the clicked
  control is active and no other control is.
\<close>

theorem period_click_selects:
  "i < length (buttons s) \<and> dataset_period (buttons s ! i) = Some p \<and> p \<noteq> [] \<longrightarrow>
     requests (period_click i s) =
       requests s @ [''/api/long-term-history?period='' @ p, ''/api/longterm-score?period='' @ p]
     \<and> currentPeriod (period_click i s) = p
     \<and> length (buttons (period_click i s)) = length (buttons s)
     \<and> (\<forall>j < length (buttons s). is_active (buttons (period_click i s) ! j) = (j = i))"
  by (auto simp: period_click_def Let_def updateHistoryCharts_fetch_def
        updateLongtermScore_fetch_def set_period_def is_active_def tokens_add_def
        tokens_remove_def nth_list_update)

theorem period_click_selects_witness:
  "requests (period_click 1 panel_page) =
     [''/api/long-term-history?period=week'', ''/api/longterm-score?period=week'']
   \<and> \<not> is_active (buttons (period_click 1 panel_page) ! 0)
   \<and> is_active (buttons (period_click 1 panel_page) ! 1)
   \<and> \<not> is_active (buttons (period_click 1 panel_page) ! 2)"
proof -
  have h: "1 < length (buttons panel_page)
           \<and> dataset_period (buttons panel_page ! 1) = Some ''week'' \<and> ''week'' \<noteq> []"
    by (simp add: panel_page_simps period_buttons_def)
  from period_click_selects [of 1 panel_page "''week''"] h
  have r: "requests (period_click 1 panel_page) =
       requests panel_page @ [''/api/long-term-history?period='' @ ''week'',
                              ''/api/longterm-score?period='' @ ''week'']"
    and a: "\<forall>j < length (buttons panel_page).
              is_active (buttons (period_click 1 panel_page) ! j) = (j = 1)"
    by blast+
  have "(0::nat) < length (buttons panel_page)" "(1::nat) < length (buttons panel_page)"
    "(2::nat) < length (buttons panel_page)"
    by (simp_all add: panel_page_simps period_buttons_def)
  with a have "is_active (buttons (period_click 1 panel_page) ! 0) = (0 = (1::nat))"
    "is_active (buttons (period_click 1 panel_page) ! 1) = (1 = (1::nat))"
    "is_active (buttons (period_click 1 panel_page) ! 2) = (2 = (1::nat))"
    by blast+
  with r show ?thesis by (simp add: panel_page_simps)
qed

subsection \<open>The score panel\<close>

lemma bar_class_not_fill: "bar_class x \<noteq> ''detail-fill''"
  by (simp add: bar_class_def)

lemma updateDetailBar_bar:
  "document (updateDetailBar p x s) (p @ ''-bar'') =
     (case (document s (p @ ''-bar''), document s (p @ ''-score'')) of
        (Some bar, Some val) \<Rightarrow>
          Some ((assign_width x bar)\<lparr>className := [''detail-fill'', bar_class x]\<rparr>)
      | _ \<Rightarrow> document s (p @ ''-bar''))"
  by (simp add: updateDetailBar_def Let_def tokens_add_def bar_class_not_fill
        split: option.splits)

lemma updateDetailBar_label:
  "document (updateDetailBar p x s) (p @ ''-score'') =
     (case (document s (p @ ''-bar''), document s (p @ ''-score'')) of
        (Some bar, Some val) \<Rightarrow> Some (val\<lparr>textContent := js_toString x\<rparr>)
      | _ \<Rightarrow> document s (p @ ''-score''))"
  by (simp add: updateDetailBar_def Let_def split: option.splits)

lemma updateDetailBar_frame:
  "i \<noteq> p @ ''-bar'' \<Longrightarrow> i \<noteq> p @ ''-score'' \<Longrightarrow>
     document (updateDetailBar p x s) i = document s i"
  by (simp add: updateDetailBar_def Let_def split: option.splits)

lemma updateDetailBar_console: "console_error (updateDetailBar p x s) = console_error s"
  by (simp add: updateDetailBar_def Let_def split: option.splits)

lemma score_panel_prelude:
  assumes "document s ''lt-grade'' = Some eg" and "document s ''lt-score'' = Some es"
    and "document s ''lt-message'' = Some em" and "grade data = Some g"
  shows "seq (update_grade data)
           (seq (set_textContent ''lt-score'' (number_content (score data)))
             (seq (set_textContent ''lt-message'' (text_of (message data))) k)) s =
         k (s\<lparr>document := (document s)
               (''lt-grade'' \<mapsto> eg\<lparr>textContent := g,
                                     className := [''score-grade'', grade_class g]\<rparr>,
                ''lt-score'' \<mapsto> es\<lparr>textContent := number_content (score data)\<rparr>,
                ''lt-message'' \<mapsto> em\<lparr>textContent := text_of (message data)\<rparr>)\<rparr>)"
proof -
  have gc: "grade_class g \<noteq> ''score-grade''"
    by (simp add: grade_class_def)
  show ?thesis
    using assms gc
    by (simp add: seq_def update_grade_def set_textContent_def set_className_def
          classList_add_def tokens_add_def text_of_def)
qed

lemma update_detail_bars_renders:
  assumes "(name, prefix) \<in> set detail_bars" and "details data = Some d"
    and "document s (prefix @ ''-bar'') = Some bar"
    and "document s (prefix @ ''-score'') = Some val"
  shows "update_detail_bars data s = (None, snd (update_detail_bars data s))"
    and "document (snd (update_detail_bars data s)) (prefix @ ''-bar'') =
           Some ((assign_width (detail_or_zero d name ''score'') bar)\<lparr>className := [''detail-fill'', bar_class (detail_or_zero d name ''score'')]\<rparr>)"
    and "document (snd (update_detail_bars data s)) (prefix @ ''-score'') =
           Some (val\<lparr>textContent := js_toString (detail_or_zero d name ''score'')\<rparr>)"
proof -
  show "update_detail_bars data s = (None, snd (update_detail_bars data s))"
    using assms(2) by (simp add: update_detail_bars_def)
  from assms(1) consider "name = ''packet_loss'' \<and> prefix = ''lt-loss''"
    | "name = ''ping'' \<and> prefix = ''lt-ping''"
    | "name = ''connection'' \<and> prefix = ''lt-conn''"
    | "name = ''jitter'' \<and> prefix = ''lt-jitter''"
    by (auto simp: detail_bars_def)
  then have "document (snd (update_detail_bars data s)) (prefix @ ''-bar'') =
           Some ((assign_width (detail_or_zero d name ''score'') bar)\<lparr>className := [''detail-fill'', bar_class (detail_or_zero d name ''score'')]\<rparr>)
     \<and> document (snd (update_detail_bars data s)) (prefix @ ''-score'') =
           Some (val\<lparr>textContent := js_toString (detail_or_zero d name ''score'')\<rparr>)"
  proof cases
    case 1
    with assms(2-4) show ?thesis
      using updateDetailBar_bar [of "''lt-loss''"] updateDetailBar_label [of "''lt-loss''"]
      by (simp add: update_detail_bars_def updateDetailBar_frame)
  next
    case 2
    with assms(2-4) show ?thesis
      using updateDetailBar_bar [of "''lt-ping''"] updateDetailBar_label [of "''lt-ping''"]
      by (simp add: update_detail_bars_def updateDetailBar_frame)
  next
    case 3
    with assms(2-4) show ?thesis
      using updateDetailBar_bar [of "''lt-conn''"] updateDetailBar_label [of "''lt-conn''"]
      by (simp add: update_detail_bars_def updateDetailBar_frame)
  next
    case 4
    with assms(2-4) show ?thesis
      using updateDetailBar_bar [of "''lt-jitter''"] updateDetailBar_label [of "''lt-jitter''"]
      by (simp add: update_detail_bars_def updateDetailBar_frame)
  qed
  then show "document (snd (update_detail_bars data s)) (prefix @ ''-bar'') =
           Some ((assign_width (detail_or_zero d name ''score'') bar)\<lparr>className := [''detail-fill'', bar_class (detail_or_zero d name ''score'')]\<rparr>)"
    and "document (snd (update_detail_bars data s)) (prefix @ ''-score'') =
           Some (val\<lparr>textContent := js_toString (detail_or_zero d name ''score'')\<rparr>)"
    by simp_all
qed

lemma js_toString_0: "js_toString 0 = ''0''"
  by code_simp

lemma js_toString_150: "js_toString 150 = ''150''"
  by code_simp

lemma js_toString_100: "js_toString 100 = ''100''"
  by code_simp

lemma js_toString_85: "js_toString 85 = ''85''"
  by code_simp

lemma detail_bar_ids:
  assumes "(name, prefix) \<in> set detail_bars"
  shows "prefix @ ''-bar'' \<notin> {''lt-grade'', ''lt-score'', ''lt-message'', ''lt-stats''}"
    and "prefix @ ''-score'' \<notin> {''lt-grade'', ''lt-score'', ''lt-message'', ''lt-stats''}"
  using assms by (auto simp: detail_bars_def)

lemma update_detail_bars_frame:
  "document (snd (update_detail_bars data s)) ''lt-stats'' = document s ''lt-stats''"
  "console_error (snd (update_detail_bars data s)) = console_error s"
  by (simp_all add: update_detail_bars_def updateDetailBar_frame updateDetailBar_console
        split: option.splits)

lemma updateLongtermScore_response_bars:
  assumes pair: "(name, prefix) \<in> set detail_bars"
    and page: "document s ''lt-grade'' = Some eg" "document s ''lt-score'' = Some es"
      "document s ''lt-message'' = Some em" "document s ''lt-stats'' = Some et"
    and bar: "document s (prefix @ ''-bar'') = Some bar"
      "document s (prefix @ ''-score'') = Some val"
    and data: "grade data = Some g" "details data = Some d"
  shows "document (updateLongtermScore_response (Inr data) s) (prefix @ ''-bar'') =
           Some ((assign_width (detail_or_zero d name ''score'') bar)\<lparr>className := [''detail-fill'', bar_class (detail_or_zero d name ''score'')]\<rparr>)"
    and "document (updateLongtermScore_response (Inr data) s) (prefix @ ''-score'') =
           Some (val\<lparr>textContent := js_toString (detail_or_zero d name ''score'')\<rparr>)"
    and "console_error (updateLongtermScore_response (Inr data) s) = console_error s"
proof -
  define s1 where "s1 = s\<lparr>document := (document s)
               (''lt-grade'' \<mapsto> eg\<lparr>textContent := g,
                                     className := [''score-grade'', grade_class g]\<rparr>,
                ''lt-score'' \<mapsto> es\<lparr>textContent := number_content (score data)\<rparr>,
                ''lt-message'' \<mapsto> em\<lparr>textContent := text_of (message data)\<rparr>)\<rparr>"
  define s2 where "s2 = snd (update_detail_bars data s1)"
  note ids = detail_bar_ids [OF pair]
  have bar1: "document s1 (prefix @ ''-bar'') = Some bar"
    "document s1 (prefix @ ''-score'') = Some val"
    using bar ids by (auto simp: s1_def)
  have stats1: "document s1 ''lt-stats'' = Some et" "console_error s1 = console_error s"
    using page(4) by (simp_all add: s1_def)
  have run2: "update_detail_bars data s1 = (None, s2)"
    unfolding s2_def by (rule update_detail_bars_renders(1) [OF pair data(2) bar1])
  have bar2: "document s2 (prefix @ ''-bar'') =
           Some ((assign_width (detail_or_zero d name ''score'') bar)\<lparr>className := [''detail-fill'', bar_class (detail_or_zero d name ''score'')]\<rparr>)"
    unfolding s2_def by (rule update_detail_bars_renders(2) [OF pair data(2) bar1])
  have label2: "document s2 (prefix @ ''-score'') =
           Some (val\<lparr>textContent := js_toString (detail_or_zero d name ''score'')\<rparr>)"
    unfolding s2_def by (rule update_detail_bars_renders(3) [OF pair data(2) bar1])
  have stats2: "document s2 ''lt-stats'' = Some et" "console_error s2 = console_error s"
    unfolding s2_def by (simp_all add: update_detail_bars_frame stats1)
  have run: "updateLongtermScore_response (Inr data) s =
          s2\<lparr>document := (document s2)(''lt-stats'' \<mapsto> et\<lparr>innerHTML := stats_markup data d\<rparr>)\<rparr>"
    unfolding updateLongtermScore_response_def try_catch_def sum.case
      score_panel_prelude [OF page(1-3) data(1)] s1_def [symmetric]
    by (simp add: seq_def run2 update_stats_def data(2) set_innerHTML_def stats2)
  show "document (updateLongtermScore_response (Inr data) s) (prefix @ ''-bar'') =
           Some ((assign_width (detail_or_zero d name ''score'') bar)\<lparr>className := [''detail-fill'', bar_class (detail_or_zero d name ''score'')]\<rparr>)"
    unfolding run using ids(1) bar2 by auto
  show "document (updateLongtermScore_response (Inr data) s) (prefix @ ''-score'') =
           Some (val\<lparr>textContent := js_toString (detail_or_zero d name ''score'')\<rparr>)"
    unfolding run using ids(2) label2 by auto
  show "console_error (updateLongtermScore_response (Inr data) s) = console_error s"
    unfolding run by (simp add: stats2)
qed

lemma detail_or_zero_missing: "sub_score d name = None \<Longrightarrow> detail_or_zero d name ''score'' = 0"
  by (simp add: sub_score_def detail_or_zero_def split: option.splits)

lemma updateLongtermScore_response_grade:
  assumes "document s ''lt-grade'' = Some eg" and "document s ''lt-score'' = Some es"
    and "document s ''lt-message'' = Some em" and "grade data = Some g"
  shows "document (updateLongtermScore_response (Inr data) s) ''lt-grade'' =
           Some (eg\<lparr>textContent := g, className := [''score-grade'', grade_class g]\<rparr>)"
  unfolding updateLongtermScore_response_def try_catch_def sum.case
    score_panel_prelude [OF assms]
  by (simp add: seq_def update_detail_bars_def update_stats_def set_innerHTML_def
        log_error_def updateDetailBar_frame split: option.splits)

text \<open>
  Claim C5 at the grade \<open>D+\<close>: the fourth test of the chain compares the whole grade with
  \<open>D\<close>, so \<open>D+\<close> falls through to \<open>grade-e\<close>, in the function of the class and in the
  class list \<open>updateLongtermScore\<close> leaves on the grade element; \<open>C+\<close> and \<open>B+\<close> get the
  class of their letter.
\<close>

theorem grade_D_plus_is_grade_e:
  "grade_class ''D+'' = ''grade-e''
   \<and> grade_class ''D'' = ''grade-d''
   \<and> grade_class ''C+'' = ''grade-c''
   \<and> grade_class ''B+'' = ''grade-b''
   \<and> grade_class ''E'' = ''grade-e''
   \<and> map_option className
        (document (updateLongtermScore_response (Inr (grade_only ''D+'')) panel_page) ''lt-grade'') =
      Some [''score-grade'', ''grade-e'']"
proof -
  have g: "grade_class ''D+'' = ''grade-e''" "grade_class ''D'' = ''grade-d''"
    "grade_class ''C+'' = ''grade-c''" "grade_class ''B+'' = ''grade-b''"
    "grade_class ''E'' = ''grade-e''"
    by (simp_all add: grade_class_def startsWith_def)
  have "document (updateLongtermScore_response (Inr (grade_only ''D+'')) panel_page) ''lt-grade'' =
          Some (blank\<lparr>textContent := ''D+'', className := [''score-grade'', grade_class ''D+'']\<rparr>)"
    by (rule updateLongtermScore_response_grade [where es = blank and em = blank])
       (simp_all add: panel_page_simps score_panel_simps grade_only_def)
  with g show ?thesis by simp
qed

text \<open>
  Claim C8, as stated, at a concrete input: for the sub-score 150 the width of the bar is
  \<open>150%\<close>, not the \<open>100%\<close> a clamp to 0 to 100 would give.
\<close>

theorem updateDetailBar_unclamped_counterexample:
  "map_option style_width (document (updateDetailBar ''lt-ping'' 150 panel_page) ''lt-ping-bar'') =
     Some ''150%''
   \<and> js_toString (max 0 (min 100 150)) @ ''%'' = ''100%''"
  using updateDetailBar_bar [of "''lt-ping''" 150 panel_page]
  by (simp add: panel_page_simps score_panel_simps assign_width_def js_toString_150
        js_toString_100)

text \<open>
  Claim C8, amended. For a sub-score that is a safe integer and not negative (from 0 to
  \<open>2^53 - 1\<close>, so also above 100), when both elements of a bar exist, \<open>updateDetailBar\<close>
  sets the width of the bar to the sub-score followed by a percent sign, as it is and
  without any clamping, the label to the sub-score, and the class to \<open>score-high\<close> from 80
  on, \<open>score-mid\<close> from 50 on and \<open>score-low\<close> below. In \<open>updateLongtermScore\<close>, when the
  payload has a grade
  and \<open>details\<close> and the page has the elements of the panel, a sub-score that \<open>details\<close>
  lacks is rendered as 0 for each of the four metrics: width \<open>0%\<close>, label \<open>0\<close>, class
  \<open>score-low\<close>, and nothing is written to the error console.
\<close>

theorem updateDetailBar_renders_score:
  "(document s (p @ ''-bar'') = Some bar \<and> document s (p @ ''-score'') = Some val
      \<and> 0 \<le> x \<and> x \<le> max_safe_integer \<longrightarrow>
      document (updateDetailBar p x s) (p @ ''-bar'') =
        Some (bar\<lparr>style_width := js_toString x @ ''%'',
                  className := [''detail-fill'',
                    if x \<ge> 80 then ''score-high''
                    else if x \<ge> 50 then ''score-mid'' else ''score-low'']\<rparr>)
      \<and> document (updateDetailBar p x s) (p @ ''-score'') =
        Some (val\<lparr>textContent := js_toString x\<rparr>))
   \<and> ((name, prefix) \<in> set detail_bars
       \<and> document s ''lt-grade'' \<noteq> None \<and> document s ''lt-score'' \<noteq> None
       \<and> document s ''lt-message'' \<noteq> None \<and> document s ''lt-stats'' \<noteq> None
       \<and> document s (prefix @ ''-bar'') = Some bar
       \<and> document s (prefix @ ''-score'') = Some val
       \<and> grade data \<noteq> None \<and> details data = Some d \<and> sub_score d name = None \<longrightarrow>
      document (updateLongtermScore_response (Inr data) s) (prefix @ ''-bar'') =
        Some (bar\<lparr>style_width := ''0%'', className := [''detail-fill'', ''score-low'']\<rparr>)
      \<and> document (updateLongtermScore_response (Inr data) s) (prefix @ ''-score'') =
        Some (val\<lparr>textContent := ''0''\<rparr>)
      \<and> console_error (updateLongtermScore_response (Inr data) s) = console_error s)"
proof (intro conjI impI)
  assume "document s (p @ ''-bar'') = Some bar \<and> document s (p @ ''-score'') = Some val
      \<and> 0 \<le> x \<and> x \<le> max_safe_integer"
  then show "document (updateDetailBar p x s) (p @ ''-bar'') =
        Some (bar\<lparr>style_width := js_toString x @ ''%'',
                  className := [''detail-fill'',
                    if x \<ge> 80 then ''score-high''
                    else if x \<ge> 50 then ''score-mid'' else ''score-low'']\<rparr>)"
    and "document (updateDetailBar p x s) (p @ ''-score'') = Some (val\<lparr>textContent := js_toString x\<rparr>)"
    by (simp_all add: updateDetailBar_bar updateDetailBar_label bar_class_def
          assign_width_def)
next
  assume a: "(name, prefix) \<in> set detail_bars
       \<and> document s ''lt-grade'' \<noteq> None \<and> document s ''lt-score'' \<noteq> None
       \<and> document s ''lt-message'' \<noteq> None \<and> document s ''lt-stats'' \<noteq> None
       \<and> document s (prefix @ ''-bar'') = Some bar
       \<and> document s (prefix @ ''-score'') = Some val
       \<and> grade data \<noteq> None \<and> details data = Some d \<and> sub_score d name = None"
  then obtain eg es em et g where page: "document s ''lt-grade'' = Some eg"
      "document s ''lt-score'' = Some es" "document s ''lt-message'' = Some em"
      "document s ''lt-stats'' = Some et" "grade data = Some g"
    by auto
  from a have z: "detail_or_zero d name ''score'' = 0"
    by (simp add: detail_or_zero_missing)
  from a have rest: "(name, prefix) \<in> set detail_bars" "document s (prefix @ ''-bar'') = Some bar"
      "document s (prefix @ ''-score'') = Some val" "details data = Some d"
    by simp_all
  note r = updateLongtermScore_response_bars
             [OF rest(1) page(1-4) rest(2,3) page(5) rest(4), unfolded z js_toString_0]
  from r(1) show "document (updateLongtermScore_response (Inr data) s) (prefix @ ''-bar'') =
        Some (bar\<lparr>style_width := ''0%'', className := [''detail-fill'', ''score-low'']\<rparr>)"
    by (simp add: bar_class_def assign_width_def js_toString_0)
  from r(2) show "document (updateLongtermScore_response (Inr data) s) (prefix @ ''-score'') =
        Some (val\<lparr>textContent := ''0''\<rparr>)" .
  from r(3) show "console_error (updateLongtermScore_response (Inr data) s) = console_error s" .
qed

theorem updateDetailBar_renders_score_witness:
  "document (updateDetailBar ''lt-ping'' 85 panel_page) ''lt-ping-bar'' =
      Some (blank\<lparr>style_width := ''85%'', className := [''detail-fill'', ''score-high'']\<rparr>)
   \<and> document (updateDetailBar ''lt-ping'' 85 panel_page) ''lt-ping-score'' =
      Some (blank\<lparr>textContent := ''85''\<rparr>)
   \<and> document (updateLongtermScore_response (Inr (grade_only ''B+'')) panel_page) ''lt-ping-bar'' =
      Some (blank\<lparr>style_width := ''0%'', className := [''detail-fill'', ''score-low'']\<rparr>)
   \<and> document (updateLongtermScore_response (Inr (grade_only ''B+'')) panel_page) ''lt-ping-score'' =
      Some (blank\<lparr>textContent := ''0''\<rparr>)
   \<and> console_error (updateLongtermScore_response (Inr (grade_only ''B+'')) panel_page) = []"
proof -
  let ?d = "[''packet_loss'' \<mapsto> [''score'' \<mapsto> 90, ''events'' \<mapsto> (2::int)]]"
  have h1: "document panel_page (''lt-ping'' @ ''-bar'') = Some blank
            \<and> document panel_page (''lt-ping'' @ ''-score'') = Some blank
            \<and> (0::int) \<le> 85 \<and> 85 \<le> max_safe_integer"
    by (simp add: panel_page_simps score_panel_simps max_safe_integer_def)
  have h2: "(''ping'', ''lt-ping'') \<in> set detail_bars
       \<and> document panel_page ''lt-grade'' \<noteq> None \<and> document panel_page ''lt-score'' \<noteq> None
       \<and> document panel_page ''lt-message'' \<noteq> None \<and> document panel_page ''lt-stats'' \<noteq> None
       \<and> document panel_page (''lt-ping'' @ ''-bar'') = Some blank
       \<and> document panel_page (''lt-ping'' @ ''-score'') = Some blank
       \<and> grade (grade_only ''B+'') \<noteq> None \<and> details (grade_only ''B+'') = Some ?d
       \<and> sub_score ?d ''ping'' = None"
    by (simp add: panel_page_simps score_panel_simps detail_bars_def grade_only_def
          sub_score_def)
  from updateDetailBar_renders_score
         [of panel_page "''lt-ping''" blank blank 85 "''ping''" "''lt-ping''"
             "grade_only ''B+''" ?d] h1 h2
  show ?thesis
    by (simp add: js_toString_85 panel_page_simps)
qed

end
